theory Spec2Isabelle
  imports Main
begin

section \<open>Values\<close>

text \<open>
  The handler of \<^verbatim>\<open>app.py\<close> works on whatever \<^verbatim>\<open>json.loads\<close> and
  \<^verbatim>\<open>request.get_json\<close> return: \<^verbatim>\<open>None\<close>, booleans, numbers, strings, lists and
  dictionaries. A \<^verbatim>\<open>str\<close> is a list of characters; the characters modelled are the
  code points below 256. A \<^verbatim>\<open>float\<close> is a finite binary fraction (mantissa and
  exponent), an infinity or a NaN; only its truth value is ever inspected. A
  \<^verbatim>\<open>dict\<close> is an association list in insertion order; a lookup takes the first
  entry of a key, and an assignment keeps the keys distinct.
\<close>

datatype pyfloat = Finite int int | Infinity bool | NaN

datatype json =
    JNull
  | JBool bool
  | JInt int
  | JFloat pyfloat
  | JStr string
  | JArr "json list"
  | JObj "(string \<times> json) list"

type_synonym dict = "(string \<times> json) list"

text \<open>Python's truth value testing, as used by \<^verbatim>\<open>if x\<close>, \<^verbatim>\<open>not x\<close> and \<^verbatim>\<open>x or y\<close>.\<close>

fun truthy :: "json \<Rightarrow> bool" where
  "truthy JNull = False"
| "truthy (JBool b) = b"
| "truthy (JInt i) = (i \<noteq> 0)"
| "truthy (JFloat (Finite m e)) = (m \<noteq> 0)"
| "truthy (JFloat (Infinity s)) = True"
| "truthy (JFloat NaN) = True"
| "truthy (JStr s) = (s \<noteq> [])"
| "truthy (JArr xs) = (xs \<noteq> [])"
| "truthy (JObj d) = (d \<noteq> [])"

text \<open>\<^verbatim>\<open>d.get(k)\<close> and \<^verbatim>\<open>d.get(k, default)\<close>.\<close>

definition dict_get_default :: "dict \<Rightarrow> string \<Rightarrow> json \<Rightarrow> json" where
  "dict_get_default d k dflt = (case map_of d k of None \<Rightarrow> dflt | Some v \<Rightarrow> v)"

definition dict_get :: "dict \<Rightarrow> string \<Rightarrow> json" where
  "dict_get d k = dict_get_default d k JNull"

text \<open>\<^verbatim>\<open>d[k] = v\<close>: an existing key keeps its place, a new key goes last.\<close>

fun dict_set :: "dict \<Rightarrow> string \<Rightarrow> json \<Rightarrow> dict" where
  "dict_set [] k v = [(k, v)]"
| "dict_set ((k', v') # d) k v =
     (if k' = k then (k, v) # d else (k', v') # dict_set d k v)"

definition dict_keys :: "dict \<Rightarrow> string list" where
  "dict_keys d = map fst d"

section \<open>String operations\<close>

text \<open>
  \<^verbatim>\<open>str.isspace\<close> on one character: the code points 9 to 13, 28 to 32, 133 and 160.
\<close>

definition isspace :: "char \<Rightarrow> bool" where
  "isspace c =
     (let n = (of_char c :: nat)
      in (9 \<le> n \<and> n \<le> 13) \<or> (28 \<le> n \<and> n \<le> 32) \<or> n = 133 \<or> n = 160)"

definition strip :: "string \<Rightarrow> string" where
  "strip s = rev (dropWhile isspace (rev (dropWhile isspace s)))"

definition startswith :: "string \<Rightarrow> string \<Rightarrow> bool" where
  "startswith s p = (take (length p) s = p)"

definition endswith :: "string \<Rightarrow> string \<Rightarrow> bool" where
  "endswith s p = (length p \<le> length s \<and> drop (length s - length p) s = p)"

text \<open>\<^verbatim>\<open>s.split('\n', 1)[1]\<close>, for an \<open>s\<close> that contains a newline.\<close>

definition after_first_newline :: "string \<Rightarrow> string" where
  "after_first_newline s = tl (dropWhile (\<lambda>c. c \<noteq> CHR 0x0A) s)"

text \<open>
  \<^verbatim>\<open>s.rsplit(sep, 1)[0]\<close>: what precedes the last occurrence of \<open>sep\<close>, and all
  of \<open>s\<close> when there is none. The search runs from the right end.
\<close>

fun rfind_head :: "string \<Rightarrow> string \<Rightarrow> string option" where
  "rfind_head sep s =
     (if endswith s sep then Some (take (length s - length sep) s)
      else if s = [] then None
      else rfind_head sep (butlast s))"

definition rsplit1_head :: "string \<Rightarrow> string \<Rightarrow> string" where
  "rsplit1_head sep s = (case rfind_head sep s of None \<Rightarrow> s | Some h \<Rightarrow> h)"

definition fence :: string where
  "fence = ''```''"

definition strip_markdown_json :: "string \<Rightarrow> string" where
  "strip_markdown_json content0 =
     (let content1 = strip content0;
          content2 =
            (if startswith content1 fence
             then (if CHR 0x0A \<in> set content1 then after_first_newline content1
                   else drop 3 content1)
             else content1);
          content3 =
            (if endswith content2 fence then rsplit1_head fence content2 else content2)
      in strip content3)"

section \<open>Dates\<close>

text \<open>
  A \<^verbatim>\<open>date\<close> is its proleptic Gregorian ordinal (\<^verbatim>\<open>date.toordinal()\<close>: day 1 is
  0001-01-01, a Monday). The library's dates end at \<^verbatim>\<open>date.max\<close>, 9999-12-31, the
  ordinal 3652059: \<^verbatim>\<open>current += timedelta(days=1)\<close> is \<open>current + 1\<close> up to that day
  and raises \<^verbatim>\<open>OverflowError\<close> with the message \<^verbatim>\<open>date value out of range\<close> beyond it.
  An exception is the value \<open>Inl msg\<close>, \<open>msg\<close> being its message.
\<close>

definition date_max :: int where
  "date_max = 3652059"

definition weekday :: "int \<Rightarrow> int" where
  "weekday d = (d + 6) mod 7"

text \<open>The loop of \<^verbatim>\<open>get_working_days_from_today\<close>, started with \<open>added = 0\<close>.\<close>

function working_days_loop :: "int \<Rightarrow> int \<Rightarrow> int \<Rightarrow> string + int" where
  "working_days_loop days current added =
     (if added < days
      then (if date_max < current + 1 then Inl ''date value out of range''
            else if weekday (current + 1) < 5
            then working_days_loop days (current + 1) (added + 1)
            else working_days_loop days (current + 1) added)
      else Inr current)"
  by pat_completeness auto
termination
  by (relation "measure (\<lambda>(days, current, added). nat (date_max - current))") auto

declare working_days_loop.simps [simp del]

text \<open>
  A device for the proofs, not a part of the program: the day the loop would reach
  if dates had no upper end. Counting is done on it, and the loop above is then
  shown to return this day when it is a date and to raise when it is not.
  \<open>weekend_ahead\<close>, the number of weekend days that follow a day directly, serves
  as its termination measure.
\<close>

definition weekend_ahead :: "int \<Rightarrow> int" where
  "weekend_ahead d = (if weekday d = 4 then 2 else if weekday d = 5 then 1 else 0)"

function working_days_unbounded :: "int \<Rightarrow> int \<Rightarrow> int \<Rightarrow> int" where
  "working_days_unbounded days current added =
     (if added < days
      then (if weekday (current + 1) < 5
            then working_days_unbounded days (current + 1) (added + 1)
            else working_days_unbounded days (current + 1) added)
      else current)"
  by pat_completeness auto
termination
proof (relation "measure (\<lambda>(days, current, added).
         3 * nat (days - added) + nat (weekend_ahead current))")
  show "wf (measure (\<lambda>(days, current, added).
         3 * nat (days - added) + nat (weekend_ahead current)))"
    by simp
next
  fix days current added :: int
  assume less: "added < days" and "weekday (current + 1) < 5"
  have "0 \<le> weekend_ahead current" and "weekend_ahead (current + 1) \<le> 2"
    by (simp_all add: weekend_ahead_def)
  with less show "((days, current + 1, added + 1), (days, current, added))
      \<in> measure (\<lambda>(days, current, added).
          3 * nat (days - added) + nat (weekend_ahead current))"
    by simp
next
  fix days current added :: int
  assume less: "added < days" and weekend: "\<not> weekday (current + 1) < 5"
  have "weekend_ahead (current + 1) = weekend_ahead current - 1 \<and> 1 \<le> weekend_ahead current"
    using weekend unfolding weekend_ahead_def weekday_def by presburger
  then show "((days, current + 1, added), (days, current, added))
      \<in> measure (\<lambda>(days, current, added).
          3 * nat (days - added) + nat (weekend_ahead current))"
    by simp
qed

declare working_days_unbounded.simps [simp del]

text \<open>
  \<^verbatim>\<open>date.isoformat()\<close> is \<^verbatim>\<open>"%04d-%02d-%02d" % (year, month, day)\<close>, the three numbers
  coming from the ordinal as in the library's \<^verbatim>\<open>_ord2ymd\<close>.
\<close>

fun decimal :: "nat \<Rightarrow> string" where
  "decimal n =
     (if n < 10 then [''0123456789'' ! n]
      else decimal (n div 10) @ [''0123456789'' ! (n mod 10)])"

definition zero_padded :: "nat \<Rightarrow> int \<Rightarrow> string" where
  "zero_padded w i =
     (if i < 0
      then CHR ''-'' # replicate (w - 1 - length (decimal (nat (- i)))) CHR ''0''
             @ decimal (nat (- i))
      else replicate (w - length (decimal (nat i))) CHR ''0'' @ decimal (nat i))"

definition days_in_month :: "int list" where
  "days_in_month = [-1, 31, 28, 31, 30, 31, 30, 31, 31, 30, 31, 30, 31]"

definition days_before_month :: "int list" where
  "days_before_month = [-1, 0, 31, 59, 90, 120, 151, 181, 212, 243, 273, 304, 334]"

definition ord2ymd :: "int \<Rightarrow> int \<times> int \<times> int" where
  "ord2ymd ordinal =
     (let n0 = ordinal - 1;
          n400 = n0 div 146097; n1 = n0 mod 146097;
          n100 = n1 div 36524; n2 = n1 mod 36524;
          n4 = n2 div 1461; n3 = n2 mod 1461;
          n1y = n3 div 365; n = n3 mod 365;
          year = n400 * 400 + 1 + n100 * 100 + n4 * 4 + n1y
      in if n1y = 4 \<or> n100 = 4 then (year - 1, 12, 31)
         else
           (let leapyear = (n1y = 3 \<and> (n4 \<noteq> 24 \<or> n100 = 3));
                month = (n + 50) div 32;
                preceding = days_before_month ! nat month
                              + (if month > 2 \<and> leapyear then 1 else 0)
            in if preceding > n
               then (let month' = month - 1;
                         preceding' = preceding
                           - (days_in_month ! nat month'
                                + (if month' = 2 \<and> leapyear then 1 else 0))
                     in (year, month', n - preceding' + 1))
               else (year, month, n - preceding + 1)))"

definition isoformat :: "int \<Rightarrow> string" where
  "isoformat ordinal =
     (case ord2ymd ordinal of (y, m, d) \<Rightarrow>
        zero_padded 4 y @ ''-'' @ zero_padded 2 m @ ''-'' @ zero_padded 2 d)"

section \<open>The environment of a request\<close>

text \<open>
  Everything outside \<^verbatim>\<open>app.py\<close> that the handler depends on:
  \<^item> \<open>AIRTABLE_API_KEY\<close>: the environment variable, \<open>None\<close> when unset;
  \<^item> \<open>airtable_get\<close>: the \<^verbatim>\<open>httpx.get\<close> of \<^verbatim>\<open>get_project_by_job_number\<close> for a job
    number, followed by \<^verbatim>\<open>raise_for_status\<close> and \<^verbatim>\<open>response.json()\<close>; \<open>None\<close> when any
    of the three raises;
  \<^item> \<open>airtable_patch\<close>: the \<^verbatim>\<open>httpx.patch\<close> of \<^verbatim>\<open>update_project_in_airtable\<close> for a
    record id and a field map, followed by \<^verbatim>\<open>raise_for_status\<close>; \<open>False\<close> when either
    raises;
  \<^item> \<open>messages_create\<close>: \<^verbatim>\<open>client.messages.create(...)\<close> and \<^verbatim>\<open>response.content[0].text\<close>,
    as a function of the three values rendered into the prompt (job number, current
    record fields, email content); \<open>Inl msg\<close> when the call or the access raises an
    exception with message \<open>msg\<close> that the last \<^verbatim>\<open>except\<close> clause of the handler
    catches, that is, any exception but a \<^verbatim>\<open>json.JSONDecodeError\<close>. A
    \<^verbatim>\<open>JSONDecodeError\<close> raised there would enter the first \<^verbatim>\<open>except\<close> clause before
    \<^verbatim>\<open>content\<close> is bound; this outcome is not among those of the model. The system
    prompt read from \<^verbatim>\<open>prompt.txt\<close> is a constant of the deployment and part of this
    function; the rendering of the prompt text itself is not modelled;
  \<^item> \<open>json_loads\<close>: \<^verbatim>\<open>json.loads\<close> on a string; \<open>Inl msg\<close> is a \<^verbatim>\<open>JSONDecodeError\<close>
    with message \<open>msg\<close>, the exception by which the parser refuses a text. Other
    exceptions of the parser (a \<^verbatim>\<open>RecursionError\<close> on a deeply nested text) are not
    among the outcomes of the model;
  \<^item> \<open>str_title\<close>: \<^verbatim>\<open>str.title\<close>;
  \<^item> \<open>today\<close>: \<^verbatim>\<open>date.today()\<close>, as an ordinal; a date of the library has an ordinal
    from 1 to \<open>date_max\<close>;
  \<^item> \<open>now\<close>: \<^verbatim>\<open>datetime.now().isoformat()\<close>.
\<close>

record env =
  AIRTABLE_API_KEY :: "string option"
  airtable_get :: "json \<Rightarrow> json option"
  airtable_patch :: "json \<Rightarrow> dict \<Rightarrow> bool"
  messages_create :: "json \<Rightarrow> dict \<Rightarrow> json \<Rightarrow> string + string"
  json_loads :: "string \<Rightarrow> string + json"
  str_title :: "string \<Rightarrow> string"
  today :: int
  now :: string

text \<open>\<^verbatim>\<open>not AIRTABLE_API_KEY\<close> is false for a non-empty string only.\<close>

definition api_key_set :: "env \<Rightarrow> bool" where
  "api_key_set e = (case AIRTABLE_API_KEY e of None \<Rightarrow> False | Some k \<Rightarrow> k \<noteq> [])"

definition get_working_days_from_today :: "env \<Rightarrow> int \<Rightarrow> string + string" where
  "get_working_days_from_today e days =
     (case working_days_loop days (today e) 0 of
        Inl msg \<Rightarrow> Inl msg
      | Inr current \<Rightarrow> Inr (isoformat current))"

section \<open>Exceptions raised by the handler's own operations\<close>

fun type_name :: "json \<Rightarrow> string" where
  "type_name JNull = ''NoneType''"
| "type_name (JBool b) = ''bool''"
| "type_name (JInt i) = ''int''"
| "type_name (JFloat f) = ''float''"
| "type_name (JStr s) = ''str''"
| "type_name (JArr xs) = ''list''"
| "type_name (JObj d) = ''dict''"

text \<open>The message of the \<^verbatim>\<open>AttributeError\<close> for \<^verbatim>\<open>v.attr\<close> on a value without it.\<close>

definition no_attribute :: "json \<Rightarrow> string \<Rightarrow> string" where
  "no_attribute v attr =
     [CHR 0x27] @ type_name v @ [CHR 0x27] @ '' object has no attribute ''
       @ [CHR 0x27] @ attr @ [CHR 0x27]"

text \<open>\<^verbatim>\<open>v.title()\<close>: only a \<^verbatim>\<open>str\<close> has the method.\<close>

definition title :: "env \<Rightarrow> json \<Rightarrow> string + json" where
  "title e v = (case v of JStr s \<Rightarrow> Inr (JStr (str_title e s))
                | _ \<Rightarrow> Inl (no_attribute v ''title''))"

section \<open>The record store client\<close>

text \<open>
  \<^verbatim>\<open>records[0]\<close> for a value that passed \<^verbatim>\<open>if not records\<close>: the first element of a
  list, the first character of a string; \<open>None\<close> where Python raises.
\<close>

fun first_item :: "json \<Rightarrow> json option" where
  "first_item (JArr (x # xs)) = Some x"
| "first_item (JStr (c # cs)) = Some (JStr [c])"
| "first_item _ = None"

text \<open>
  \<^verbatim>\<open>get_project_by_job_number\<close>. Every exception inside its \<^verbatim>\<open>try\<close> ends in
  \<^verbatim>\<open>return None, None\<close>.
\<close>

definition get_project_by_job_number :: "env \<Rightarrow> json \<Rightarrow> json \<times> json" where
  "get_project_by_job_number e job_number =
     (if \<not> api_key_set e then (JNull, JNull)
      else
        (case airtable_get e job_number of
           None \<Rightarrow> (JNull, JNull)
         | Some (JObj body) \<Rightarrow>
             (let records = dict_get_default body ''records'' (JArr [])
              in if \<not> truthy records then (JNull, JNull)
                 else
                   (case first_item records of
                      Some (JObj record) \<Rightarrow>
                        (case (map_of record ''id'', map_of record ''fields'') of
                           (Some record_id, Some current_data) \<Rightarrow> (record_id, current_data)
                         | _ \<Rightarrow> (JNull, JNull))
                    | _ \<Rightarrow> (JNull, JNull)))
         | Some _ \<Rightarrow> (JNull, JNull)))"

text \<open>
  \<^verbatim>\<open>update_project_in_airtable\<close>, returning its boolean and the list of PATCH requests
  it sent (none or one).
\<close>

type_synonym patch_call = "json \<times> dict"

definition update_project_in_airtable :: "env \<Rightarrow> json \<Rightarrow> dict \<Rightarrow> bool \<times> patch_call list" where
  "update_project_in_airtable e record_id updates =
     (if \<not> api_key_set e \<or> \<not> truthy record_id then (False, [])
      else (airtable_patch e record_id updates, [(record_id, updates)]))"

section \<open>The update endpoint\<close>

text \<open>A response is a status code and a JSON body.\<close>

type_synonym response = "nat \<times> json"

text \<open>The last \<^verbatim>\<open>except Exception\<close> clause of \<^verbatim>\<open>update\<close>.\<close>

definition internal_error :: "string \<Rightarrow> response" where
  "internal_error details =
     (500, JObj [(''error'', JStr ''Internal server error''), (''details'', JStr details)])"

text \<open>
  \<^verbatim>\<open>update_due = analysis.get('updateDue') or get_working_days_from_today(5)\<close>: the
  function is called, and can raise, only when the first operand is empty.
\<close>

definition update_due_for :: "env \<Rightarrow> dict \<Rightarrow> string + json" where
  "update_due_for e analysis =
     (if truthy (dict_get analysis ''updateDue'') then Inr (dict_get analysis ''updateDue'')
      else (case get_working_days_from_today e 5 of
              Inl msg \<Rightarrow> Inl msg
            | Inr due \<Rightarrow> Inr (JStr due)))"

text \<open>
  The four \<^verbatim>\<open>if\<close> statements that fill \<^verbatim>\<open>airtable_updates\<close>, in the order of the source.
  The first two can raise (\<^verbatim>\<open>.title()\<close> on a value that is not a string).
\<close>

definition set_stage :: "env \<Rightarrow> dict \<Rightarrow> dict \<Rightarrow> string + dict" where
  "set_stage e analysis updates =
     (if truthy (dict_get analysis ''stage'')
      then (case title e (dict_get analysis ''stage'') of
              Inl msg \<Rightarrow> Inl msg
            | Inr t \<Rightarrow> Inr (dict_set updates ''Stage'' t))
      else Inr updates)"

definition set_status :: "env \<Rightarrow> dict \<Rightarrow> dict \<Rightarrow> string + dict" where
  "set_status e analysis updates =
     (if truthy (dict_get analysis ''status'')
      then (case title e (dict_get analysis ''status'') of
              Inl msg \<Rightarrow> Inl msg
            | Inr t \<Rightarrow>
                Inr (dict_set (dict_set updates ''Status'' t)
                       ''Status Changed'' (JStr (now e))))
      else Inr updates)"

definition set_with_client :: "dict \<Rightarrow> dict \<Rightarrow> dict" where
  "set_with_client analysis updates =
     (if dict_get analysis ''withClient'' \<noteq> JNull
      then dict_set updates ''With Client?'' (dict_get analysis ''withClient'')
      else updates)"

definition set_update :: "dict \<Rightarrow> json \<Rightarrow> dict \<Rightarrow> dict" where
  "set_update analysis update_due updates =
     (if truthy (dict_get analysis ''updateSummary'')
      then dict_set (dict_set updates ''Update'' (dict_get analysis ''updateSummary''))
             ''Update due'' update_due
      else updates)"

definition airtable_updates :: "env \<Rightarrow> dict \<Rightarrow> json \<Rightarrow> string + dict" where
  "airtable_updates e analysis update_due =
     (case set_stage e analysis [] of
        Inl msg \<Rightarrow> Inl msg
      | Inr u1 \<Rightarrow>
          (case set_status e analysis u1 of
             Inl msg \<Rightarrow> Inl msg
           | Inr u2 \<Rightarrow> Inr (set_update analysis update_due (set_with_client analysis u2))))"

text \<open>
  The handler from \<^verbatim>\<open>update_due = ...\<close> to its last \<^verbatim>\<open>return\<close>: the derived fields,
  the PATCH and the response. The result is the response and the PATCH requests sent.
\<close>

definition apply_analysis ::
  "env \<Rightarrow> json \<Rightarrow> json \<Rightarrow> dict \<Rightarrow> json \<Rightarrow> response \<times> patch_call list" where
  "apply_analysis e job_number project_record_id current_data analysis_value =
     (case analysis_value of
        JObj analysis \<Rightarrow>
          (case update_due_for e analysis of
             Inl msg \<Rightarrow> (internal_error msg, [])
           | Inr update_due \<Rightarrow>
               (case airtable_updates e analysis update_due of
                  Inl msg \<Rightarrow> (internal_error msg, [])
                | Inr updates \<Rightarrow>
                    (let (update_success, calls) =
                           (if updates \<noteq> []
                            then update_project_in_airtable e project_record_id updates
                            else (False, []))
                     in ((200, JObj
                           [(''jobNumber'', job_number),
                            (''projectName'', dict_get_default current_data ''Project Name'' (JStr [])),
                            (''previousStage'', dict_get_default current_data ''Stage'' (JStr [])),
                            (''previousStatus'', dict_get_default current_data ''Status'' (JStr [])),
                            (''newStage'', dict_get analysis ''stage''),
                            (''newStatus'', dict_get analysis ''status''),
                            (''withClient'', dict_get analysis ''withClient''),
                            (''updateSummary'', dict_get_default analysis ''updateSummary'' (JStr [])),
                            (''updateDue'', update_due),
                            (''hasBlocker'', dict_get_default analysis ''hasBlocker'' (JBool False)),
                            (''blockerNote'', dict_get analysis ''blockerNote''),
                            (''confidence'', dict_get_default analysis ''confidence'' (JStr ''MEDIUM'')),
                            (''confidenceNote'', dict_get analysis ''confidenceNote''),
                            (''teamsMessage'', dict_get_default analysis ''teamsMessage'' (JObj [])),
                            (''airtableUpdated'', JBool update_success),
                            (''fieldsUpdated'', JArr (map JStr (dict_keys updates)))]),
                         calls))))
      | _ \<Rightarrow> (internal_error (no_attribute analysis_value ''get''), []))"

text \<open>
  The handler from the rendering of the context to \<^verbatim>\<open>json.loads\<close>: the record's fields
  must be a dictionary (\<^verbatim>\<open>current_data.get\<close>), the model is called, its reply is
  stripped of its fence and parsed.
\<close>

definition invoke_model ::
  "env \<Rightarrow> json \<Rightarrow> json \<Rightarrow> json \<Rightarrow> json \<Rightarrow> response \<times> patch_call list" where
  "invoke_model e email_content job_number project_record_id current_data_value =
     (case current_data_value of
        JObj current_data \<Rightarrow>
          (case messages_create e job_number current_data email_content of
             Inl msg \<Rightarrow> (internal_error msg, [])
           | Inr text \<Rightarrow>
               (let content = strip_markdown_json text
                in case json_loads e content of
                     Inl msg \<Rightarrow>
                       ((500, JObj [(''error'', JStr ''Claude returned invalid JSON''),
                                    (''details'', JStr msg),
                                    (''raw_response'', JStr content)]), [])
                   | Inr analysis \<Rightarrow>
                       apply_analysis e job_number project_record_id current_data analysis))
      | _ \<Rightarrow> (internal_error (no_attribute current_data_value ''get''), []))"

text \<open>
  \<^verbatim>\<open>update\<close>, the handler of \<^verbatim>\<open>POST /update\<close>. Its argument is the outcome of
  \<^verbatim>\<open>request.get_json()\<close>: \<open>Inl msg\<close> when it raises (a body that is absent, not JSON or
  not declared as JSON) with message \<open>msg\<close>, \<open>Inr data\<close> when it returns \<open>data\<close>.
\<close>

definition update :: "env \<Rightarrow> string + json \<Rightarrow> response \<times> patch_call list" where
  "update e request =
     (case request of
        Inl msg \<Rightarrow> (internal_error msg, [])
      | Inr (JObj data) \<Rightarrow>
          (let email_content = dict_get_default data ''emailContent'' (JStr []);
               job_number = dict_get_default data ''jobNumber'' (JStr [])
           in if \<not> truthy email_content
              then ((400, JObj [(''error'', JStr ''No email content provided'')]), [])
              else if \<not> truthy job_number
              then ((400, JObj [(''error'', JStr ''No job number provided'')]), [])
              else
                (case get_project_by_job_number e job_number of
                   (project_record_id, current_data) \<Rightarrow>
                     if \<not> truthy project_record_id
                     then ((404, JObj [(''error'', JStr ''Job not found''),
                                       (''jobNumber'', job_number)]), [])
                     else invoke_model e email_content job_number project_record_id
                            current_data))
      | Inr data \<Rightarrow> (internal_error (no_attribute data ''get''), []))"

section \<open>A sample environment\<close>

text \<open>
  One concrete environment, on which the theorems below are instantiated: the key is
  set, the store holds one record for the job \<^verbatim>\<open>ABC 001\<close>, the model answers with a
  fenced object, and the two library functions are given on the inputs that occur.
  The day is 2026-11-03, a Tuesday. The end of the calendar is examined on the same
  environment with \<open>today\<close> set to a day of the last week of the year 9999.
\<close>

definition sample_record :: dict where
  "sample_record =
     [(''id'', JStr ''rec1''),
      (''fields'', JObj [(''Project Name'', JStr ''Website''), (''Stage'', JStr ''Craft'')])]"

definition sample_reply :: string where
  \<open>sample_reply =
     ''```json\<newline>{"status": "on hold", "updateSummary": "Waiting on client"}\<newline>```''\<close>

definition sample_analysis :: dict where
  "sample_analysis =
     [(''status'', JStr ''on hold''), (''updateSummary'', JStr ''Waiting on client'')]"

definition sample_env :: env where
  \<open>sample_env =
     \<lparr> AIRTABLE_API_KEY = Some ''key'',
       airtable_get = (\<lambda>job_number.
          if job_number = JStr ''ABC 001''
          then Some (JObj [(''records'', JArr [JObj sample_record])])
          else if job_number = JStr ''ABC 500'' then None
          else Some (JObj [(''records'', JArr [])])),
       airtable_patch = (\<lambda>record_id updates. True),
       messages_create = (\<lambda>job_number current_data email_content.
          if email_content = JStr ''garbled'' then Inr ''```\<newline>Sorry, no update found.\<newline>```''
          else Inr sample_reply),
       json_loads = (\<lambda>s.
          if s = ''{"status": "on hold", "updateSummary": "Waiting on client"}''
          then Inr (JObj sample_analysis)
          else Inl ''Expecting value: line 1 column 1 (char 0)''),
       str_title = (\<lambda>s. if s = ''on hold'' then ''On Hold'' else s),
       today = 739923,
       now = ''2026-11-03T09:30:00'' \<rparr>\<close>

section \<open>Auxiliary facts\<close>

subsection \<open>Dictionaries\<close>

lemma map_of_dict_set: "map_of (dict_set d k v) = (map_of d)(k \<mapsto> v)"
  by (induction d k v rule: dict_set.induct) auto

lemma keys_dict_set: "set (dict_keys (dict_set d k v)) = insert k (set (dict_keys d))"
  by (induction d k v rule: dict_set.induct) (auto simp: dict_keys_def)

lemma dict_get_Some: "truthy (dict_get d k) \<Longrightarrow> \<exists>v. map_of d k = Some v \<and> truthy v"
  by (cases "map_of d k") (simp_all add: dict_get_def dict_get_default_def)

lemma dict_get_not_null: "dict_get d k \<noteq> JNull \<Longrightarrow> \<exists>v. map_of d k = Some v \<and> v \<noteq> JNull"
  by (cases "map_of d k") (simp_all add: dict_get_def dict_get_default_def)

subsection \<open>Stripping and splitting\<close>

lemma isspace_backtick: "\<not> isspace CHR ''`''"
  by (simp add: isspace_def)

lemma strip_pad:
  assumes "\<forall>c\<in>set ws1. isspace c" "\<forall>c\<in>set ws2. isspace c" "\<not> isspace x" "\<not> isspace y"
  shows "strip (ws1 @ x # mid @ y # ws2) = x # mid @ [y]"
proof -
  have a: "dropWhile isspace (ws1 @ x # mid @ y # ws2) = x # mid @ y # ws2"
    using assms(1,3) by (subst dropWhile_append2) auto
  have b: "dropWhile isspace (rev ws2 @ y # rev mid @ [x]) = y # rev mid @ [x]"
    using assms(2,4) by (subst dropWhile_append2) auto
  show ?thesis unfolding strip_def a using b by simp
qed

lemma startswith_append: "startswith (p @ s) p"
  by (simp add: startswith_def)

lemma endswith_append: "endswith (s @ p) p"
  by (simp add: endswith_def)

lemma rsplit1_head_append: "rsplit1_head p (s @ p) = s"
  by (simp add: rsplit1_head_def endswith_append)

lemma after_first_newline_append:
  "CHR 0x0A \<notin> set pre \<Longrightarrow> after_first_newline (pre @ CHR 0x0A # rest) = rest"
proof -
  assume "CHR 0x0A \<notin> set pre"
  then have "dropWhile (\<lambda>c. c \<noteq> CHR 0x0A) (pre @ CHR 0x0A # rest) = CHR 0x0A # rest"
    by (subst dropWhile_append2) auto
  then show ?thesis by (simp add: after_first_newline_def)
qed

lemma fenced_multiline:
  assumes "\<forall>c\<in>set ws1. isspace c" "\<forall>c\<in>set ws2. isspace c" "CHR 0x0A \<notin> set tag"
  shows "strip_markdown_json (ws1 @ fence @ tag @ [CHR 0x0A] @ body @ fence @ ws2) = strip body"
proof -
  let ?mid = "''``'' @ tag @ [CHR 0x0A] @ body @ ''``''"
  have s: "strip (ws1 @ fence @ tag @ [CHR 0x0A] @ body @ fence @ ws2)
             = fence @ tag @ CHR 0x0A # body @ fence"
    using strip_pad [OF assms(1,2) isspace_backtick isspace_backtick, of ?mid]
    by (simp add: fence_def)
  have n: "CHR 0x0A \<notin> set (fence @ tag)" using assms(3) by (simp add: fence_def)
  have a: "after_first_newline (fence @ tag @ CHR 0x0A # body @ fence) = body @ fence"
    using after_first_newline_append [OF n, of "body @ fence"] by simp
  show ?thesis
    unfolding strip_markdown_json_def s
    by (simp add: Let_def startswith_append a endswith_append rsplit1_head_append)
qed

lemma fenced_one_line:
  assumes "\<forall>c\<in>set ws1. isspace c" "\<forall>c\<in>set ws2. isspace c" "CHR 0x0A \<notin> set body"
  shows "strip_markdown_json (ws1 @ fence @ body @ fence @ ws2) = strip body"
proof -
  let ?mid = "''``'' @ body @ ''``''"
  have s: "strip (ws1 @ fence @ body @ fence @ ws2) = fence @ body @ fence"
    using strip_pad [OF assms(1,2) isspace_backtick isspace_backtick, of ?mid]
    by (simp add: fence_def)
  have n: "(CHR 0x0A \<in> set (fence @ body @ fence)) = False"
    using assms(3) by (simp add: fence_def)
  have d: "drop 3 (fence @ body @ fence) = body @ fence" by (simp add: fence_def)
  have st: "startswith (fence @ body @ fence) fence = True"
    by (simp add: startswith_append)
  have en: "endswith (body @ fence) fence = True"
    by (simp add: endswith_append)
  show ?thesis
    unfolding strip_markdown_json_def s Let_def
    by (simp only: n d st en if_True if_False rsplit1_head_append)
qed

lemma strip_idem: "strip (strip s) = strip s"
proof -
  define t where "t = dropWhile isspace s"
  define u where "u = rev (dropWhile isspace (rev t))"
  have t_split: "t = u @ rev (takeWhile isspace (rev t))"
    unfolding u_def rev_append [symmetric]
    by (simp only: takeWhile_dropWhile_id rev_rev_ident)
  have keep: "dropWhile isspace u = u"
  proof (cases u)
    case Nil
    then show ?thesis by simp
  next
    case (Cons x xs)
    with t_split have "t = x # (xs @ rev (takeWhile isspace (rev t)))" by simp
    then obtain rest where "t = x # rest" ..
    then have "t \<noteq> []" and "hd t = x" by simp_all
    then have "\<not> isspace x"
      using hd_dropWhile [of isspace s] by (simp add: t_def)
    with Cons show ?thesis by simp
  qed
  have "strip s = u" by (simp add: strip_def t_def u_def)
  moreover have "strip u = u"
    unfolding strip_def keep by (simp add: u_def)
  ultimately show ?thesis by simp
qed

lemma unfenced:
  assumes "\<not> startswith (strip content) fence" "\<not> endswith (strip content) fence"
  shows "strip_markdown_json content = strip content"
  using assms by (simp add: strip_markdown_json_def Let_def strip_idem)

subsection \<open>Counting working days\<close>

text \<open>
  The invariant of counting: started at \<open>current\<close> with \<open>added\<close> days already
  counted, the count ends on a day that lies \<open>days - added\<close> working days after
  \<open>current\<close>, and on a working day whenever it moved at all.
\<close>

lemma weekday_range: "0 \<le> weekday d \<and> weekday d < 7"
  by (simp add: weekday_def)

lemma weekend_filter:
  "filter (\<lambda>d. \<not> weekday d < 5) xs = filter (\<lambda>d. weekday d = 5 \<or> weekday d = 6) xs"
proof (rule filter_cong [OF refl])
  fix d
  show "(\<not> weekday d < 5) = (weekday d = 5 \<or> weekday d = 6)"
    using weekday_range [of d] by auto
qed

lemma upto_filter_step:
  "c < r \<Longrightarrow> filter P [c + 1..r] = (if P (c + 1) then [c + 1] else []) @ filter P [c + 1 + 1..r]"
  by (subst upto_rec1) simp_all

lemma working_days_unbounded_count:
  "added \<le> days \<Longrightarrow>
     current \<le> working_days_unbounded days current added
   \<and> int (length (filter (\<lambda>d. weekday d < 5) [current + 1..working_days_unbounded days current added])) = days - added
   \<and> (added < days \<longrightarrow> weekday (working_days_unbounded days current added) < 5)"
proof (induction days current added rule: working_days_unbounded.induct)
  case (1 days current added)
  show ?case
  proof (cases "added < days")
    case False
    with "1.prems" have "added = days" by simp
    then have "working_days_unbounded days current added = current"
      by (subst working_days_unbounded.simps) simp
    with \<open>added = days\<close> show ?thesis by simp
  next
    case True
    note less = this
    show ?thesis
    proof (cases "weekday (current + 1) < 5")
      case wd: True
      let ?r = "working_days_unbounded days (current + 1) (added + 1)"
      have eq: "working_days_unbounded days current added = ?r"
        using less wd by (subst working_days_unbounded.simps) simp
      have ih: "current + 1 \<le> ?r"
        "int (length (filter (\<lambda>d. weekday d < 5) [current + 1 + 1..?r])) = days - (added + 1)"
        "added + 1 < days \<longrightarrow> weekday ?r < 5"
        using "1.IH"(1) [OF less wd] less by simp_all
      have last: "weekday ?r < 5"
      proof (cases "added + 1 < days")
        case True then show ?thesis using ih(3) by simp
      next
        case False
        then have "?r = current + 1" by (subst working_days_unbounded.simps) simp
        then show ?thesis using wd by simp
      qed
      have "current < ?r" using ih(1) by simp
      from upto_filter_step [OF this, of "\<lambda>d. weekday d < 5"] wd ih(2)
      have "int (length (filter (\<lambda>d. weekday d < 5) [current + 1..?r])) = days - added"
        by simp
      with ih(1) last show ?thesis unfolding eq by simp
    next
      case wd: False
      let ?r = "working_days_unbounded days (current + 1) added"
      have eq: "working_days_unbounded days current added = ?r"
        using less wd by (subst working_days_unbounded.simps) simp
      have ih: "current + 1 \<le> ?r"
        "int (length (filter (\<lambda>d. weekday d < 5) [current + 1 + 1..?r])) = days - added"
        "weekday ?r < 5"
        using "1.IH"(2) [OF less wd] less "1.prems" by simp_all
      have "current < ?r" using ih(1) by simp
      from upto_filter_step [OF this, of "\<lambda>d. weekday d < 5"] wd ih(2)
      have "int (length (filter (\<lambda>d. weekday d < 5) [current + 1..?r])) = days - added"
        by simp
      with ih(1,3) show ?thesis unfolding eq by simp
    qed
  qed
qed

text \<open>
  Every seven consecutive days hold five working days, so the fifth working day
  after a day is at most seven days later.
\<close>

lemma weekday_add: "weekday (d + k) = (weekday d + k) mod 7"
  unfolding weekday_def by presburger

lemma week_list: "[t + 1..t + 7] = [t + 1, t + 2, t + 3, t + 4, t + 5, t + 6, t + 7]"
  by (simp add: upto_rec1)

lemma week_count: "length (filter (\<lambda>d. weekday d < 5) [t + 1..t + 7]) = 5"
proof -
  have "0 \<le> weekday t" "weekday t < 7" by (simp_all add: weekday_def)
  then consider "weekday t = 0" | "weekday t = 1" | "weekday t = 2" | "weekday t = 3"
    | "weekday t = 4" | "weekday t = 5" | "weekday t = 6"
    by linarith
  then show ?thesis
    unfolding week_list by cases (simp_all add: weekday_add [of t])
qed

lemma working_days_unbounded_five_bounds:
  "t + 5 \<le> working_days_unbounded 5 t 0 \<and> working_days_unbounded 5 t 0 \<le> t + 7"
proof -
  define due where "due = working_days_unbounded 5 t 0"
  have inv: "t \<le> due"
    "int (length (filter (\<lambda>d. weekday d < 5) [t + 1..due])) = 5"
    "weekday due < 5"
    using working_days_unbounded_count [of 0 5 t] by (simp_all add: due_def)
  have "length (filter (\<lambda>d. weekday d < 5) [t + 1..due]) \<le> length [t + 1..due]"
    by (rule length_filter_le)
  with inv(1,2) have lower: "t + 5 \<le> due" by simp
  have upper: "due \<le> t + 7"
  proof (rule ccontr)
    assume "\<not> due \<le> t + 7"
    then have far: "t + 8 \<le> due" by simp
    have "[t + 1..due] = [t + 1..(t + 8) - 1] @ [t + 8..due]"
      using far by (intro upto_split1) simp_all
    moreover have "(t + 8) - 1 = t + 7" by simp
    ultimately have first: "[t + 1..due] = [t + 1..t + 7] @ [t + 8..due]"
      by (simp only:)
    have "[t + 8..due] = [t + 8..due - 1] @ [due]"
      using far by (rule upto_rec2)
    with first have "[t + 1..due] = [t + 1..t + 7] @ [t + 8..due - 1] @ [due]"
      by (simp only:)
    then have "length (filter (\<lambda>d. weekday d < 5) [t + 1..due])
        = 5 + length (filter (\<lambda>d. weekday d < 5) [t + 8..due - 1]) + 1"
      using inv(3) by (simp add: week_count)
    with inv(2) show False by simp
  qed
  from lower upper show ?thesis by (simp add: due_def)
qed

text \<open>
  The loop of the program returns the day counted when that day is a date, and
  raises when it is not.
\<close>

lemma working_days_unbounded_ge: "current \<le> working_days_unbounded days current added"
proof (induction days current added rule: working_days_unbounded.induct)
  case (1 days current added)
  show ?case
  proof (cases "added < days")
    case False
    then show ?thesis by (subst working_days_unbounded.simps) simp
  next
    case True
    show ?thesis
    proof (cases "weekday (current + 1) < 5")
      case wd: True
      from "1.IH"(1) [OF True wd] True wd show ?thesis
        by (subst working_days_unbounded.simps) simp
    next
      case wd: False
      from "1.IH"(2) [OF True wd] True wd show ?thesis
        by (subst working_days_unbounded.simps) simp
    qed
  qed
qed

lemma working_days_loop_returns:
  "working_days_unbounded days current added \<le> date_max \<Longrightarrow>
     working_days_loop days current added = Inr (working_days_unbounded days current added)"
proof (induction days current added rule: working_days_unbounded.induct)
  case (1 days current added)
  show ?case
  proof (cases "added < days")
    case False
    then show ?thesis
      by (subst working_days_loop.simps, subst working_days_unbounded.simps) simp
  next
    case True
    show ?thesis
    proof (cases "weekday (current + 1) < 5")
      case wd: True
      have eq: "working_days_unbounded days current added
                  = working_days_unbounded days (current + 1) (added + 1)"
        using True wd by (subst working_days_unbounded.simps) simp
      with "1.prems" have le: "working_days_unbounded days (current + 1) (added + 1) \<le> date_max"
        by simp
      with working_days_unbounded_ge [of "current + 1" days "added + 1"]
      have "\<not> date_max < current + 1" by simp
      with "1.IH"(1) [OF True wd le] True wd show ?thesis
        unfolding eq by (subst working_days_loop.simps) simp
    next
      case wd: False
      have eq: "working_days_unbounded days current added
                  = working_days_unbounded days (current + 1) added"
        using True wd by (subst working_days_unbounded.simps) simp
      with "1.prems" have le: "working_days_unbounded days (current + 1) added \<le> date_max"
        by simp
      with working_days_unbounded_ge [of "current + 1" days added]
      have "\<not> date_max < current + 1" by simp
      with "1.IH"(2) [OF True wd le] True wd show ?thesis
        unfolding eq by (subst working_days_loop.simps) simp
    qed
  qed
qed

lemma working_days_loop_raises:
  "date_max < working_days_unbounded days current added \<Longrightarrow> current \<le> date_max \<Longrightarrow>
     working_days_loop days current added = Inl ''date value out of range''"
proof (induction days current added rule: working_days_unbounded.induct)
  case (1 days current added)
  show ?case
  proof (cases "added < days")
    case False
    then have "working_days_unbounded days current added = current"
      by (subst working_days_unbounded.simps) simp
    with "1.prems" show ?thesis by simp
  next
    case True
    show ?thesis
    proof (cases "date_max < current + 1")
      case True
      with \<open>added < days\<close> show ?thesis by (subst working_days_loop.simps) simp
    next
      case inside: False
      then have le: "current + 1 \<le> date_max" by simp
      show ?thesis
      proof (cases "weekday (current + 1) < 5")
        case wd: True
        have "working_days_unbounded days current added
                  = working_days_unbounded days (current + 1) (added + 1)"
          using True wd by (subst working_days_unbounded.simps) simp
        with "1.prems" have "date_max < working_days_unbounded days (current + 1) (added + 1)"
          by simp
        from "1.IH"(1) [OF True wd this le] True wd inside show ?thesis
          by (subst working_days_loop.simps) simp
      next
        case wd: False
        have "working_days_unbounded days current added
                  = working_days_unbounded days (current + 1) added"
          using True wd by (subst working_days_unbounded.simps) simp
        with "1.prems" have "date_max < working_days_unbounded days (current + 1) added"
          by simp
        from "1.IH"(2) [OF True wd this le] True wd inside show ?thesis
          by (subst working_days_loop.simps) simp
      qed
    qed
  qed
qed

text \<open>
  Five working days from the last two days from which they can be counted,
  9999-12-25 and 9999-12-26: both end on 9999-12-31.
\<close>

lemma last_saturday: "working_days_unbounded 5 3652053 0 = 3652059"
  by (simp add: working_days_unbounded.simps weekday_def)

lemma last_sunday: "working_days_unbounded 5 3652054 0 = 3652059"
  by (simp add: working_days_unbounded.simps weekday_def)

lemma five_days_in_range:
  assumes "t \<le> 3652054"
  shows "working_days_unbounded 5 t 0 \<le> date_max"
proof (cases "t \<le> 3652052")
  case True
  with working_days_unbounded_five_bounds [of t] show ?thesis
    by (simp add: date_max_def)
next
  case False
  with assms have "t = 3652053 \<or> t = 3652054" by auto
  then show ?thesis
    by (auto simp: last_saturday last_sunday date_max_def)
qed

lemma five_days_return:
  "t \<le> 3652054 \<Longrightarrow> working_days_loop 5 t 0 = Inr (working_days_unbounded 5 t 0)"
  by (rule working_days_loop_returns) (rule five_days_in_range)

lemma five_days_raise:
  assumes "3652054 < t"
  shows "working_days_loop 5 t 0 = Inl ''date value out of range''"
proof (cases "t \<le> date_max")
  case True
  from assms working_days_unbounded_five_bounds [of t]
  have "date_max < working_days_unbounded 5 t 0" by (simp add: date_max_def)
  then show ?thesis using True by (rule working_days_loop_raises)
next
  case False
  then show ?thesis by (subst working_days_loop.simps) simp
qed

text \<open>The computed due date is never the empty string.\<close>

lemma decimal_not_Nil: "decimal n \<noteq> []"
  by (subst decimal.simps) simp

lemma isoformat_not_Nil: "isoformat d \<noteq> []"
  by (simp add: isoformat_def split: prod.splits)

lemma update_due_for_truthy: "update_due_for e analysis = Inr due \<Longrightarrow> truthy due"
  by (auto simp: update_due_for_def get_working_days_from_today_def isoformat_not_Nil
        split: if_splits sum.splits)

subsection \<open>The update payload\<close>

text \<open>
  The keys of the payload are decided by the four conditions of the source, and the
  payload is what \<^verbatim>\<open>update\<close> sends in its PATCH request.
\<close>

lemma set_stage_keys:
  "set_stage e analysis u = Inr u' \<Longrightarrow>
     set (dict_keys u') = set (dict_keys u) \<union> (if truthy (dict_get analysis ''stage'') then {''Stage''} else {})"
  by (auto simp: set_stage_def keys_dict_set split: if_splits sum.splits)

lemma set_status_keys:
  "set_status e analysis u = Inr u' \<Longrightarrow>
     set (dict_keys u') = set (dict_keys u)
       \<union> (if truthy (dict_get analysis ''status'') then {''Status'', ''Status Changed''} else {})"
  by (auto simp: set_status_def keys_dict_set split: if_splits sum.splits)

lemma set_with_client_keys:
  "set (dict_keys (set_with_client analysis u)) = set (dict_keys u)
       \<union> (if dict_get analysis ''withClient'' \<noteq> JNull then {''With Client?''} else {})"
  by (auto simp: set_with_client_def keys_dict_set)

lemma set_update_keys:
  "set (dict_keys (set_update analysis due u)) = set (dict_keys u)
       \<union> (if truthy (dict_get analysis ''updateSummary'') then {''Update'', ''Update due''} else {})"
  by (auto simp: set_update_def keys_dict_set)

lemma airtable_updates_keys:
  assumes "airtable_updates e analysis due = Inr updates"
  shows "set (dict_keys updates) =
      (if truthy (dict_get analysis ''stage'') then {''Stage''} else {})
    \<union> (if truthy (dict_get analysis ''status'') then {''Status'', ''Status Changed''} else {})
    \<union> (if dict_get analysis ''withClient'' \<noteq> JNull then {''With Client?''} else {})
    \<union> (if truthy (dict_get analysis ''updateSummary'') then {''Update'', ''Update due''} else {})"
proof -
  from assms obtain u1 u2 where
    1: "set_stage e analysis [] = Inr u1" and
    2: "set_status e analysis u1 = Inr u2" and
    3: "updates = set_update analysis due (set_with_client analysis u2)"
    by (auto simp: airtable_updates_def split: sum.splits)
  have "set (dict_keys ([] :: dict)) = {}" by (simp add: dict_keys_def)
  with set_stage_keys [OF 1] set_status_keys [OF 2] show ?thesis
    unfolding 3 set_update_keys set_with_client_keys by simp
qed

lemma airtable_updates_ok:
  assumes "\<not> truthy (dict_get analysis ''stage'') \<or> (\<exists>t. dict_get analysis ''stage'' = JStr t)"
      and "\<not> truthy (dict_get analysis ''status'') \<or> (\<exists>t. dict_get analysis ''status'' = JStr t)"
  shows "\<exists>updates. airtable_updates e analysis due = Inr updates"
proof -
  have "\<exists>u1. set_stage e analysis [] = Inr u1"
    using assms(1) by (cases "truthy (dict_get analysis ''stage'')") (auto simp: set_stage_def title_def)
  then obtain u1 where 1: "set_stage e analysis [] = Inr u1" ..
  have "\<exists>u2. set_status e analysis u1 = Inr u2"
    using assms(2) by (cases "truthy (dict_get analysis ''status'')") (auto simp: set_status_def title_def)
  then obtain u2 where 2: "set_status e analysis u1 = Inr u2" ..
  show ?thesis by (simp add: airtable_updates_def 1 2)
qed

lemma airtable_updates_empty:
  assumes "\<not> truthy (dict_get analysis ''stage'')" "\<not> truthy (dict_get analysis ''status'')"
    "dict_get analysis ''withClient'' = JNull" "\<not> truthy (dict_get analysis ''updateSummary'')"
  shows "airtable_updates e analysis due = Inr []"
  using assms
  by (simp add: airtable_updates_def set_stage_def set_status_def set_with_client_def
        set_update_def)

lemma apply_analysis_sends_airtable_updates:
  assumes "(record_id, updates) \<in> set (snd (apply_analysis e job_number project_record_id current_data (JObj analysis)))"
  shows "\<exists>update_due. update_due_for e analysis = Inr update_due
           \<and> airtable_updates e analysis update_due = Inr updates
           \<and> record_id = project_record_id"
  using assms
  by (auto simp: apply_analysis_def internal_error_def update_project_in_airtable_def Let_def
           split: sum.splits if_splits prod.splits)

text \<open>
  The due date of a request: the one the model supplies, the computed one up to
  9999-12-26, and an exception, answered with the generic 500, from 9999-12-27.
\<close>

lemma update_due_for_supplied:
  "truthy (dict_get analysis ''updateDue'') \<Longrightarrow>
     update_due_for e analysis = Inr (dict_get analysis ''updateDue'')"
  by (simp add: update_due_for_def)

lemma update_due_for_computed:
  "\<not> truthy (dict_get analysis ''updateDue'') \<Longrightarrow> today e \<le> 3652054 \<Longrightarrow>
     get_working_days_from_today e 5 = Inr (isoformat (working_days_unbounded 5 (today e) 0))
   \<and> update_due_for e analysis = Inr (JStr (isoformat (working_days_unbounded 5 (today e) 0)))"
  by (simp add: update_due_for_def get_working_days_from_today_def five_days_return)

lemma update_due_for_raises:
  "\<not> truthy (dict_get analysis ''updateDue'') \<Longrightarrow> 3652054 < today e \<Longrightarrow>
     update_due_for e analysis = Inl ''date value out of range''"
  by (simp add: update_due_for_def get_working_days_from_today_def five_days_raise)

lemma update_due_for_returns:
  assumes "truthy (dict_get analysis ''updateDue'') \<or> today e \<le> 3652054"
  shows "\<exists>update_due. update_due_for e analysis = Inr update_due"
proof (cases "truthy (dict_get analysis ''updateDue'')")
  case True
  then show ?thesis by (simp add: update_due_for_supplied)
next
  case False
  with assms update_due_for_computed [of analysis e] show ?thesis by simp
qed

lemma apply_analysis_overflow:
  "\<not> truthy (dict_get analysis ''updateDue'') \<Longrightarrow> 3652054 < today e \<Longrightarrow>
     apply_analysis e job_number project_record_id current_data (JObj analysis)
       = (internal_error ''date value out of range'', [])"
  by (simp add: apply_analysis_def update_due_for_raises)

lemma apply_analysis_empty:
  assumes "update_due_for e analysis = Inr update_due"
      and "airtable_updates e analysis update_due = Inr []"
  shows "\<exists>body. apply_analysis e job_number project_record_id current_data (JObj analysis)
                  = ((200, JObj body), [])
              \<and> map_of body ''airtableUpdated'' = Some (JBool False)
              \<and> map_of body ''fieldsUpdated'' = Some (JArr [])"
  by (simp add: apply_analysis_def assms dict_keys_def)

lemma apply_analysis_responds:
  assumes "update_due_for e analysis = Inr update_due"
      and "airtable_updates e analysis update_due = Inr updates"
  shows "\<exists>body calls. apply_analysis e job_number project_record_id current_data (JObj analysis)
                  = ((200, JObj body), calls)
              \<and> map_of body ''updateDue'' = Some update_due"
  by (simp add: apply_analysis_def assms Let_def split: prod.splits)

subsection \<open>The path of a valid request through the handler\<close>

lemma lookup_fails:
  assumes "\<not> api_key_set e \<or> airtable_get e job_number = None
      \<or> (\<exists>body. airtable_get e job_number = Some (JObj body)
            \<and> dict_get_default body ''records'' (JArr []) = JArr [])"
  shows "get_project_by_job_number e job_number = (JNull, JNull)"
  using assms by (auto simp: get_project_by_job_number_def Let_def)

lemma update_reaches_invoke_model:
  assumes "email_content = dict_get_default data ''emailContent'' (JStr [])"
      and "truthy email_content"
      and "job_number = dict_get_default data ''jobNumber'' (JStr [])"
      and "truthy job_number"
      and "get_project_by_job_number e job_number = (project_record_id, current_data)"
      and "truthy project_record_id"
  shows "update e (Inr (JObj data))
           = invoke_model e email_content job_number project_record_id current_data"
  using assms by (simp add: update_def Let_def)

lemma update_reaches_apply_analysis:
  assumes "email_content = dict_get_default data ''emailContent'' (JStr [])"
      and "truthy email_content"
      and "job_number = dict_get_default data ''jobNumber'' (JStr [])"
      and "truthy job_number"
      and "get_project_by_job_number e job_number = (project_record_id, JObj current_data)"
      and "truthy project_record_id"
      and "messages_create e job_number current_data email_content = Inr text"
      and "json_loads e (strip_markdown_json text) = Inr analysis"
  shows "update e (Inr (JObj data))
           = apply_analysis e job_number project_record_id current_data analysis"
  unfolding update_reaches_invoke_model [OF assms(1-6)]
  using assms(7,8) by (simp add: invoke_model_def Let_def)

subsection \<open>The sample environment\<close>

text \<open>
  The values the sample environment computes, and one complete run of the handler on
  it: the request is valid, the record is found, the reply is parsed, the status and
  the update note are patched, and the response reports the four fields written.
\<close>

lemma sample_loop: "working_days_loop 5 739923 0 = Inr 739930"
  by (simp add: working_days_loop.simps weekday_def date_max_def)

lemma sample_iso: "isoformat 739930 = ''2026-11-10''"
  by (simp add: isoformat_def ord2ymd_def Let_def zero_padded_def days_before_month_def
        days_in_month_def)

lemma sample_due: "get_working_days_from_today sample_env 5 = Inr ''2026-11-10''"
  by (simp add: get_working_days_from_today_def sample_env_def sample_loop sample_iso)

text \<open>The same environment on 9999-12-27, a Monday.\<close>

lemma late_iso: "isoformat 3652055 = ''9999-12-27''"
  by (simp add: isoformat_def ord2ymd_def Let_def zero_padded_def days_before_month_def
        days_in_month_def)

lemma late_loop: "working_days_loop 5 3652055 0 = Inl ''date value out of range''"
  by (simp add: working_days_loop.simps weekday_def date_max_def)

lemma sample_strip:
  \<open>strip_markdown_json sample_reply
     = ''{"status": "on hold", "updateSummary": "Waiting on client"}''\<close>
  by (simp add: sample_reply_def strip_markdown_json_def strip_def isspace_def startswith_def
        endswith_def fence_def after_first_newline_def rsplit1_head_def Let_def)

lemma sample_updates:
  "airtable_updates sample_env sample_analysis (JStr ''2026-11-10'')
     = Inr [(''Status'', JStr ''On Hold''),
            (''Status Changed'', JStr ''2026-11-03T09:30:00''),
            (''Update'', JStr ''Waiting on client''),
            (''Update due'', JStr ''2026-11-10'')]"
  by (simp add: airtable_updates_def set_stage_def set_status_def set_with_client_def
        set_update_def title_def dict_get_def dict_get_default_def sample_analysis_def
        sample_env_def)

lemma sample_lookup:
  "get_project_by_job_number sample_env (JStr ''ABC 001'')
     = (JStr ''rec1'', JObj [(''Project Name'', JStr ''Website''), (''Stage'', JStr ''Craft'')])"
  by (simp add: get_project_by_job_number_def api_key_set_def sample_env_def sample_record_def
        dict_get_default_def Let_def)

lemma sample_request:
  "update sample_env (Inr (JObj [(''emailContent'', JStr ''On hold for now''),
                                  (''jobNumber'', JStr ''ABC 001'')]))
     = ((200, JObj
          [(''jobNumber'', JStr ''ABC 001''),
           (''projectName'', JStr ''Website''),
           (''previousStage'', JStr ''Craft''),
           (''previousStatus'', JStr []),
           (''newStage'', JNull),
           (''newStatus'', JStr ''on hold''),
           (''withClient'', JNull),
           (''updateSummary'', JStr ''Waiting on client''),
           (''updateDue'', JStr ''2026-11-10''),
           (''hasBlocker'', JBool False),
           (''blockerNote'', JNull),
           (''confidence'', JStr ''MEDIUM''),
           (''confidenceNote'', JNull),
           (''teamsMessage'', JObj []),
           (''airtableUpdated'', JBool True),
           (''fieldsUpdated'',
              JArr [JStr ''Status'', JStr ''Status Changed'', JStr ''Update'', JStr ''Update due''])]),
        [(JStr ''rec1'',
          [(''Status'', JStr ''On Hold''),
           (''Status Changed'', JStr ''2026-11-03T09:30:00''),
           (''Update'', JStr ''Waiting on client''),
           (''Update due'', JStr ''2026-11-10'')])])"
proof -
  have look: "get_project_by_job_number sample_env (JStr ''ABC 001'')
     = (JStr ''rec1'', JObj [(''Project Name'', JStr ''Website''), (''Stage'', JStr ''Craft'')])"
    by (simp add: get_project_by_job_number_def api_key_set_def sample_env_def sample_record_def
        dict_get_default_def Let_def)
  have reply: "messages_create sample_env (JStr ''ABC 001'')
        [(''Project Name'', JStr ''Website''), (''Stage'', JStr ''Craft'')]
        (JStr ''On hold for now'') = Inr sample_reply"
    by (simp add: sample_env_def)
  have parsed: "json_loads sample_env (strip_markdown_json sample_reply) = Inr (JObj sample_analysis)"
    unfolding sample_strip by (simp add: sample_env_def)
  have due: "update_due_for sample_env sample_analysis = Inr (JStr ''2026-11-10'')"
    by (simp add: update_due_for_def dict_get_def dict_get_default_def sample_analysis_def
          sample_due)
  have upd: "airtable_updates sample_env sample_analysis (JStr ''2026-11-10'')
     = Inr [(''Status'', JStr ''On Hold''),
            (''Status Changed'', JStr ''2026-11-03T09:30:00''),
            (''Update'', JStr ''Waiting on client''),
            (''Update due'', JStr ''2026-11-10'')]"
    by (simp add: airtable_updates_def set_stage_def set_status_def set_with_client_def
        set_update_def title_def dict_get_def dict_get_default_def sample_analysis_def
        sample_env_def)
  have patch: "update_project_in_airtable sample_env (JStr ''rec1'')
       [(''Status'', JStr ''On Hold''),
            (''Status Changed'', JStr ''2026-11-03T09:30:00''),
            (''Update'', JStr ''Waiting on client''),
            (''Update due'', JStr ''2026-11-10'')]
     = (True, [(JStr ''rec1'', [(''Status'', JStr ''On Hold''),
            (''Status Changed'', JStr ''2026-11-03T09:30:00''),
            (''Update'', JStr ''Waiting on client''),
            (''Update due'', JStr ''2026-11-10'')])])"
    by (simp add: update_project_in_airtable_def api_key_set_def sample_env_def)
  have tail: "apply_analysis sample_env (JStr ''ABC 001'') (JStr ''rec1'')
        [(''Project Name'', JStr ''Website''), (''Stage'', JStr ''Craft'')] (JObj sample_analysis)
      = ((200, JObj
          [(''jobNumber'', JStr ''ABC 001''),
           (''projectName'', JStr ''Website''),
           (''previousStage'', JStr ''Craft''),
           (''previousStatus'', JStr []),
           (''newStage'', JNull),
           (''newStatus'', JStr ''on hold''),
           (''withClient'', JNull),
           (''updateSummary'', JStr ''Waiting on client''),
           (''updateDue'', JStr ''2026-11-10''),
           (''hasBlocker'', JBool False),
           (''blockerNote'', JNull),
           (''confidence'', JStr ''MEDIUM''),
           (''confidenceNote'', JNull),
           (''teamsMessage'', JObj []),
           (''airtableUpdated'', JBool True),
           (''fieldsUpdated'',
              JArr [JStr ''Status'', JStr ''Status Changed'', JStr ''Update'', JStr ''Update due''])]),
        [(JStr ''rec1'',
          [(''Status'', JStr ''On Hold''),
           (''Status Changed'', JStr ''2026-11-03T09:30:00''),
           (''Update'', JStr ''Waiting on client''),
           (''Update due'', JStr ''2026-11-10'')])])"
    unfolding apply_analysis_def json.case due sum.case upd patch
    by (simp add: dict_get_def dict_get_default_def sample_analysis_def dict_keys_def)
  show ?thesis
    unfolding update_def
    by (simp add: Let_def dict_get_default_def look invoke_model_def reply parsed tail)
qed

section \<open>The update payload holds present fields only\<close>

text \<open>
  Claim C1. For every extraction result, a field is in the Airtable update payload
  only if the extraction-result field it comes from is present and non-empty:
  \<^verbatim>\<open>Stage\<close> only if \<^verbatim>\<open>stage\<close> is present with a true (non-empty) value; \<^verbatim>\<open>Status\<close> and
  \<^verbatim>\<open>Status Changed\<close> only if \<^verbatim>\<open>status\<close> is; \<^verbatim>\<open>Update\<close> and \<^verbatim>\<open>Update due\<close> only if
  \<^verbatim>\<open>updateSummary\<close> is; \<^verbatim>\<open>With Client?\<close> only if the tri-state \<^verbatim>\<open>withClient\<close> is present
  with a value other than null (\<open>false\<close> is a value). The payload has no other
  fields, so a field absent from the extraction result is not overwritten.
\<close>

theorem payload_fields_only_from_present_values:
  assumes "airtable_updates e analysis update_due = Inr updates"
  shows "(''Stage'' \<in> set (dict_keys updates) \<longrightarrow>
            (\<exists>v. map_of analysis ''stage'' = Some v \<and> truthy v))
       \<and> (''Status'' \<in> set (dict_keys updates) \<longrightarrow>
            (\<exists>v. map_of analysis ''status'' = Some v \<and> truthy v))
       \<and> (''Status Changed'' \<in> set (dict_keys updates) \<longrightarrow>
            (\<exists>v. map_of analysis ''status'' = Some v \<and> truthy v))
       \<and> (''With Client?'' \<in> set (dict_keys updates) \<longrightarrow>
            (\<exists>v. map_of analysis ''withClient'' = Some v \<and> v \<noteq> JNull))
       \<and> (''Update'' \<in> set (dict_keys updates) \<longrightarrow>
            (\<exists>v. map_of analysis ''updateSummary'' = Some v \<and> truthy v))
       \<and> (''Update due'' \<in> set (dict_keys updates) \<longrightarrow>
            (\<exists>v. map_of analysis ''updateSummary'' = Some v \<and> truthy v))
       \<and> set (dict_keys updates)
            \<subseteq> {''Stage'', ''Status'', ''Status Changed'', ''With Client?'', ''Update'', ''Update due''}"
proof -
  note keys = airtable_updates_keys [OF assms]
  have stage: "''Stage'' \<in> set (dict_keys updates) \<longrightarrow> truthy (dict_get analysis ''stage'')"
    unfolding keys by (simp split: if_splits)
  have status: "''Status'' \<in> set (dict_keys updates) \<longrightarrow> truthy (dict_get analysis ''status'')"
    unfolding keys by (simp split: if_splits)
  have changed: "''Status Changed'' \<in> set (dict_keys updates) \<longrightarrow> truthy (dict_get analysis ''status'')"
    unfolding keys by (simp split: if_splits)
  have client: "''With Client?'' \<in> set (dict_keys updates) \<longrightarrow> dict_get analysis ''withClient'' \<noteq> JNull"
    unfolding keys by (simp split: if_splits)
  have upd: "''Update'' \<in> set (dict_keys updates) \<longrightarrow> truthy (dict_get analysis ''updateSummary'')"
    unfolding keys by (simp split: if_splits)
  have due: "''Update due'' \<in> set (dict_keys updates) \<longrightarrow> truthy (dict_get analysis ''updateSummary'')"
    unfolding keys by (simp split: if_splits)
  have sub: "set (dict_keys updates)
       \<subseteq> {''Stage'', ''Status'', ''Status Changed'', ''With Client?'', ''Update'', ''Update due''}"
    unfolding keys by (simp split: if_splits)
  from stage status changed client upd due sub show ?thesis
    using dict_get_Some [of analysis] dict_get_not_null [of analysis "''withClient''"]
    by blast
qed

theorem payload_fields_only_from_present_values_witness:
  "airtable_updates sample_env sample_analysis (JStr ''2026-11-10'')
     = Inr [(''Status'', JStr ''On Hold''),
            (''Status Changed'', JStr ''2026-11-03T09:30:00''),
            (''Update'', JStr ''Waiting on client''),
            (''Update due'', JStr ''2026-11-10'')]
   \<and> (\<exists>v. map_of sample_analysis ''status'' = Some v \<and> truthy v)
   \<and> (\<exists>v. map_of sample_analysis ''updateSummary'' = Some v \<and> truthy v)
   \<and> map_of sample_analysis ''stage'' = None
   \<and> map_of sample_analysis ''withClient'' = None"
  using payload_fields_only_from_present_values [OF sample_updates] sample_updates
  by (simp add: dict_keys_def sample_analysis_def)

section \<open>Fence stripping\<close>

text \<open>
  Claim C2. A reply wrapped in a triple-backtick fence is a text of the form
  whitespace, \<^verbatim>\<open>```\<close>, a tag without a newline (possibly empty), a newline, a body,
  \<^verbatim>\<open>```\<close>, whitespace. For every such reply \<^verbatim>\<open>strip_markdown_json\<close> returns the body
  without its surrounding whitespace: both fences and the tag are gone. The same
  holds for a fence on one line without a tag (\<^verbatim>\<open>```body```\<close>). For every unfenced
  reply, one that after trimming neither starts nor ends with \<^verbatim>\<open>```\<close>, the result is
  the reply without its surrounding whitespace and otherwise unchanged.
\<close>

theorem strip_markdown_json_removes_fence:
  "((\<forall>c\<in>set ws1. isspace c) \<and> (\<forall>c\<in>set ws2. isspace c) \<and> CHR 0x0A \<notin> set tag \<longrightarrow>
      strip_markdown_json (ws1 @ fence @ tag @ [CHR 0x0A] @ body @ fence @ ws2) = strip body)
   \<and> ((\<forall>c\<in>set ws1. isspace c) \<and> (\<forall>c\<in>set ws2. isspace c) \<and> CHR 0x0A \<notin> set body \<longrightarrow>
      strip_markdown_json (ws1 @ fence @ body @ fence @ ws2) = strip body)
   \<and> (\<not> startswith (strip content) fence \<and> \<not> endswith (strip content) fence \<longrightarrow>
      strip_markdown_json content = strip content)"
  using fenced_multiline [of ws1 ws2 tag body] fenced_one_line [of ws1 ws2 body]
    unfenced [of content]
  by blast

theorem strip_markdown_json_removes_fence_witness:
  \<open>strip_markdown_json (''  ```json\<newline>{"status": "on hold"}\<newline>```\<newline>'') = ''{"status": "on hold"}''
   \<and> strip_markdown_json (''```{"status": "on hold"}```'') = ''{"status": "on hold"}''
   \<and> strip_markdown_json ('' {"status": "on hold"}\<newline>'') = ''{"status": "on hold"}''\<close>
proof -
  have ws: "\<forall>c\<in>set ''  ''. isspace c" "\<forall>c\<in>set ''\<newline>''. isspace c"
    "\<forall>c\<in>set []. isspace c"
    by (simp_all add: isspace_def)
  have tag: "CHR 0x0A \<notin> set ''json''" by simp
  have body: \<open>CHR 0x0A \<notin> set ''{"status": "on hold"}''\<close> by simp
  have plain: \<open>strip '' {"status": "on hold"}\<newline>'' = ''{"status": "on hold"}''\<close>
    by (simp add: strip_def isspace_def)
  have inner: \<open>strip ''{"status": "on hold"}\<newline>'' = ''{"status": "on hold"}''\<close>
    \<open>strip ''{"status": "on hold"}'' = ''{"status": "on hold"}''\<close>
    by (simp_all add: strip_def isspace_def)
  have un: \<open>\<not> startswith (strip '' {"status": "on hold"}\<newline>'') fence\<close>
    \<open>\<not> endswith (strip '' {"status": "on hold"}\<newline>'') fence\<close>
    unfolding plain by (simp_all add: startswith_def endswith_def fence_def)
  show ?thesis
    using strip_markdown_json_removes_fence
      [of "''  ''" "''\<newline>''" "''json''" \<open>''{"status": "on hold"}\<newline>''\<close>
          \<open>'' {"status": "on hold"}\<newline>''\<close>]
      strip_markdown_json_removes_fence
      [of "[]" "[]" "[]" \<open>''{"status": "on hold"}''\<close> "[]"]
      ws tag body un plain inner
    by (simp add: fence_def)
qed

section \<open>The due date\<close>

text \<open>
  Claim C3. For every current date up to 9999-12-26 (the ordinal 3652054),
  \<^verbatim>\<open>get_working_days_from_today(5)\<close> returns the ISO format of a day \<open>due\<close> that is a
  date (not after 9999-12-31), is a weekday (Monday to Friday), lies after today and
  at most seven days after it, and has exactly five working days in the range from
  tomorrow to \<open>due\<close>; the days skipped in that range are exactly its Saturdays and
  Sundays. This value is the update-due date whenever the extraction result has no
  \<^verbatim>\<open>updateDue\<close>. For every later current date the call does not return: it raises
  \<^verbatim>\<open>OverflowError\<close>, \<^verbatim>\<open>date value out of range\<close>.
\<close>

theorem get_working_days_from_today_five:
  "(today e \<le> 3652054 \<longrightarrow>
      (\<exists>due. working_days_loop 5 (today e) 0 = Inr due
         \<and> get_working_days_from_today e 5 = Inr (isoformat due)
         \<and> 0 \<le> weekday due \<and> weekday due < 5
         \<and> today e < due \<and> due \<le> today e + 7 \<and> due \<le> date_max
         \<and> length (filter (\<lambda>d. weekday d < 5) [today e + 1..due]) = 5
         \<and> due - today e
             = 5 + int (length (filter (\<lambda>d. weekday d = 5 \<or> weekday d = 6) [today e + 1..due]))
         \<and> (\<not> truthy (dict_get analysis ''updateDue'') \<longrightarrow>
               update_due_for e analysis = Inr (JStr (isoformat due)))))
   \<and> (3652054 < today e \<longrightarrow>
         get_working_days_from_today e 5 = Inl ''date value out of range'')"
proof (intro conjI impI)
  assume late: "3652054 < today e"
  then show "get_working_days_from_today e 5 = Inl ''date value out of range''"
    by (simp add: get_working_days_from_today_def five_days_raise)
next
  assume early: "today e \<le> 3652054"
  define due where "due = working_days_unbounded 5 (today e) 0"
  have loop: "working_days_loop 5 (today e) 0 = Inr due"
    unfolding due_def using early by (rule five_days_return)
  have range: "due \<le> date_max"
    unfolding due_def using early by (rule five_days_in_range)
  have inv: "today e \<le> due"
    "int (length (filter (\<lambda>d. weekday d < 5) [today e + 1..due])) = 5"
    "weekday due < 5"
    using working_days_unbounded_count [of 0 5 "today e"] by (simp_all add: due_def)
  have count: "length (filter (\<lambda>d. weekday d < 5) [today e + 1..due]) = 5"
    using inv(2) by simp
  have "today e \<noteq> due"
  proof
    assume "today e = due"
    then have "[today e + 1..due] = []" by simp
    with count show False by simp
  qed
  with inv(1) have after: "today e < due" by simp
  have "length (filter (\<lambda>d. weekday d < 5) [today e + 1..due])
        + length (filter (\<lambda>d. \<not> weekday d < 5) [today e + 1..due])
        = length [today e + 1..due]"
    by (rule sum_length_filter_compl)
  then have "5 + length (filter (\<lambda>d. weekday d = 5 \<or> weekday d = 6) [today e + 1..due])
        = nat (due - today e)"
    using count by (simp add: weekend_filter)
  then have span: "due - today e
      = 5 + int (length (filter (\<lambda>d. weekday d = 5 \<or> weekday d = 6) [today e + 1..due]))"
    using after by linarith
  have iso: "get_working_days_from_today e 5 = Inr (isoformat due)"
    by (simp add: get_working_days_from_today_def loop)
  have used: "\<not> truthy (dict_get analysis ''updateDue'') \<longrightarrow>
      update_due_for e analysis = Inr (JStr (isoformat due))"
    by (simp add: update_due_for_def iso)
  have within: "due \<le> today e + 7"
    using working_days_unbounded_five_bounds [of "today e"] by (simp add: due_def)
  from loop iso weekday_range [of due] inv(3) after within range count span used
  show "\<exists>due. working_days_loop 5 (today e) 0 = Inr due
         \<and> get_working_days_from_today e 5 = Inr (isoformat due)
         \<and> 0 \<le> weekday due \<and> weekday due < 5
         \<and> today e < due \<and> due \<le> today e + 7 \<and> due \<le> date_max
         \<and> length (filter (\<lambda>d. weekday d < 5) [today e + 1..due]) = 5
         \<and> due - today e
             = 5 + int (length (filter (\<lambda>d. weekday d = 5 \<or> weekday d = 6) [today e + 1..due]))
         \<and> (\<not> truthy (dict_get analysis ''updateDue'') \<longrightarrow>
               update_due_for e analysis = Inr (JStr (isoformat due)))"
    by blast
qed

text \<open>
  On the sample environment, 2026-11-03, the due date is 2026-11-10, the Tuesday
  of the week after; on 9999-12-28 the call raises.
\<close>

theorem get_working_days_from_today_five_witness:
  "today sample_env \<le> 3652054
   \<and> get_working_days_from_today sample_env 5 = Inr ''2026-11-10''
   \<and> weekday 739930 = 1
   \<and> length (filter (\<lambda>d. weekday d < 5) [739923 + 1..739930]) = 5
   \<and> update_due_for sample_env [(''updateSummary'', JStr ''Waiting on client'')]
        = Inr (JStr ''2026-11-10'')
   \<and> 3652054 < today (sample_env\<lparr>today := 3652056\<rparr>)
   \<and> get_working_days_from_today (sample_env\<lparr>today := 3652056\<rparr>) 5
        = Inl ''date value out of range''"
proof -
  have t: "today sample_env = 739923" by (simp add: sample_env_def)
  have w: "weekday 739930 = 1" by (simp add: weekday_def)
  have a: "\<not> truthy (dict_get [(''updateSummary'', JStr ''Waiting on client'')] ''updateDue'')"
    by (simp add: dict_get_def dict_get_default_def)
  have early: "today sample_env \<le> 3652054" by (simp add: t)
  have late: "3652054 < today (sample_env\<lparr>today := 3652056\<rparr>)" by simp
  from get_working_days_from_today_five
         [of sample_env "[(''updateSummary'', JStr ''Waiting on client'')]"] early a
  obtain due where d: "working_days_loop 5 (today sample_env) 0 = Inr due"
      "get_working_days_from_today sample_env 5 = Inr (isoformat due)"
      "length (filter (\<lambda>d. weekday d < 5) [today sample_env + 1..due]) = 5"
      "update_due_for sample_env [(''updateSummary'', JStr ''Waiting on client'')]
         = Inr (JStr (isoformat due))"
    by blast
  from d(1) have due: "due = 739930" unfolding t sample_loop by simp
  from get_working_days_from_today_five [of "sample_env\<lparr>today := 3652056\<rparr>" "[]"] late
  have r: "get_working_days_from_today (sample_env\<lparr>today := 3652056\<rparr>) 5
        = Inl ''date value out of range''"
    by blast
  from d(2,3,4) show ?thesis
    unfolding due t sample_iso using early late w r by simp
qed

text \<open>
  The claim without the bound, for every current date, fails on 9999-12-27, a
  Monday: the fifth working day after it would be 10000-01-03, and the loop raises
  when it steps from 9999-12-31.
\<close>

theorem get_working_days_from_today_five_counterexample:
  "isoformat 3652055 = ''9999-12-27''
   \<and> weekday 3652055 = 0
   \<and> get_working_days_from_today (sample_env\<lparr>today := 3652055\<rparr>) 5
        = Inl ''date value out of range''"
  by (simp add: late_iso weekday_def get_working_days_from_today_def late_loop)

section \<open>The status-changed timestamp\<close>

text \<open>
  Claim C4. For every extraction result whose \<^verbatim>\<open>status\<close> is a non-empty string (and
  whose \<^verbatim>\<open>stage\<close> is empty or a string, so that the payload is built), the payload
  holds \<^verbatim>\<open>Status Changed\<close> with the current time; for every extraction result whose
  \<^verbatim>\<open>status\<close> is absent or empty, the payload has no \<^verbatim>\<open>Status Changed\<close> field.
\<close>

theorem status_change_stamps_timestamp:
  "(dict_get analysis ''status'' = JStr s \<and> s \<noteq> []
      \<and> (\<not> truthy (dict_get analysis ''stage'') \<or> (\<exists>t. dict_get analysis ''stage'' = JStr t))
      \<longrightarrow> (\<exists>updates. airtable_updates e analysis update_due = Inr updates
             \<and> map_of updates ''Status Changed'' = Some (JStr (now e))))
   \<and> (\<not> truthy (dict_get analysis ''status'')
      \<and> airtable_updates e analysis update_due = Inr updates
      \<longrightarrow> ''Status Changed'' \<notin> set (dict_keys updates))"
proof (intro conjI impI)
  assume a: "dict_get analysis ''status'' = JStr s \<and> s \<noteq> []
      \<and> (\<not> truthy (dict_get analysis ''stage'') \<or> (\<exists>t. dict_get analysis ''stage'' = JStr t))"
  then have "\<exists>u1. set_stage e analysis [] = Inr u1"
    by (cases "truthy (dict_get analysis ''stage'')") (auto simp: set_stage_def title_def)
  then obtain u1 where 1: "set_stage e analysis [] = Inr u1" ..
  from a have 2: "set_status e analysis u1
      = Inr (dict_set (dict_set u1 ''Status'' (JStr (str_title e s)))
               ''Status Changed'' (JStr (now e)))"
    by (simp add: set_status_def title_def)
  have "map_of (set_update analysis update_due (set_with_client analysis
          (dict_set (dict_set u1 ''Status'' (JStr (str_title e s)))
               ''Status Changed'' (JStr (now e))))) ''Status Changed'' = Some (JStr (now e))"
    by (simp add: set_update_def set_with_client_def map_of_dict_set)
  then show "\<exists>updates. airtable_updates e analysis update_due = Inr updates
             \<and> map_of updates ''Status Changed'' = Some (JStr (now e))"
    by (simp add: airtable_updates_def 1 2)
next
  assume "\<not> truthy (dict_get analysis ''status'')
      \<and> airtable_updates e analysis update_due = Inr updates"
  then show "''Status Changed'' \<notin> set (dict_keys updates)"
    using airtable_updates_keys [of e analysis update_due updates]
    by (simp split: if_splits)
qed

theorem status_change_stamps_timestamp_witness:
  "(\<exists>updates. airtable_updates sample_env sample_analysis (JStr ''2026-11-10'') = Inr updates
       \<and> map_of updates ''Status Changed'' = Some (JStr ''2026-11-03T09:30:00''))
   \<and> airtable_updates sample_env [(''withClient'', JBool False)] (JStr ''2026-11-10'')
       = Inr [(''With Client?'', JBool False)]
   \<and> ''Status Changed'' \<notin> set (dict_keys [(''With Client?'', JBool False)])"
proof -
  have a: "dict_get sample_analysis ''status'' = JStr ''on hold''"
    "\<not> truthy (dict_get sample_analysis ''stage'')"
    by (simp_all add: dict_get_def dict_get_default_def sample_analysis_def)
  have n: "now sample_env = ''2026-11-03T09:30:00''" by (simp add: sample_env_def)
  have b: "\<not> truthy (dict_get [(''withClient'', JBool False)] ''status'')"
    by (simp add: dict_get_def dict_get_default_def)
  have c: "airtable_updates sample_env [(''withClient'', JBool False)] (JStr ''2026-11-10'')
       = Inr [(''With Client?'', JBool False)]"
    by (simp add: airtable_updates_def set_stage_def set_status_def set_with_client_def
        set_update_def dict_get_def dict_get_default_def)
  show ?thesis
    using status_change_stamps_timestamp
        [of sample_analysis "''on hold''" sample_env "JStr ''2026-11-10''"
            "[(''With Client?'', JBool False)]"]
      status_change_stamps_timestamp
        [of "[(''withClient'', JBool False)]" "''on hold''" sample_env "JStr ''2026-11-10''"
            "[(''With Client?'', JBool False)]"]
      a n b c
    by simp
qed

section \<open>Missing input\<close>

text \<open>
  Claim C5. For every request whose JSON body lacks \<^verbatim>\<open>emailContent\<close> (the key is
  absent or its value is empty), the response is a 400 whose error message names
  the email content; for every request that has it but lacks \<^verbatim>\<open>jobNumber\<close>, the
  response is a 400 whose error message names the job number. An absent key and the
  empty string are both empty in this sense. No PATCH request is sent.
\<close>

theorem update_missing_input:
  "(\<not> truthy (dict_get_default data ''emailContent'' (JStr [])) \<longrightarrow>
      update e (Inr (JObj data))
        = ((400, JObj [(''error'', JStr ''No email content provided'')]), []))
   \<and> (truthy (dict_get_default data ''emailContent'' (JStr []))
      \<and> \<not> truthy (dict_get_default data ''jobNumber'' (JStr [])) \<longrightarrow>
      update e (Inr (JObj data))
        = ((400, JObj [(''error'', JStr ''No job number provided'')]), []))
   \<and> (map_of data ''emailContent'' = None \<or> map_of data ''emailContent'' = Some (JStr []) \<longrightarrow>
      \<not> truthy (dict_get_default data ''emailContent'' (JStr [])))
   \<and> (map_of data ''jobNumber'' = None \<or> map_of data ''jobNumber'' = Some (JStr []) \<longrightarrow>
      \<not> truthy (dict_get_default data ''jobNumber'' (JStr [])))"
  by (auto simp: update_def Let_def dict_get_default_def)

theorem update_missing_input_witness:
  "update sample_env (Inr (JObj [(''jobNumber'', JStr ''ABC 001'')]))
     = ((400, JObj [(''error'', JStr ''No email content provided'')]), [])
   \<and> update sample_env (Inr (JObj [(''emailContent'', JStr ''On hold for now''),
                                    (''jobNumber'', JStr [])]))
     = ((400, JObj [(''error'', JStr ''No job number provided'')]), [])"
proof -
  have a: "map_of [(''jobNumber'', JStr ''ABC 001'')] ''emailContent'' = None"
    by simp
  have b: "truthy (dict_get_default [(''emailContent'', JStr ''On hold for now''),
              (''jobNumber'', JStr [])] ''emailContent'' (JStr []))"
    "map_of [(''emailContent'', JStr ''On hold for now''), (''jobNumber'', JStr [])] ''jobNumber''
       = Some (JStr [])"
    by (simp_all add: dict_get_default_def)
  show ?thesis
    using update_missing_input [of "[(''jobNumber'', JStr ''ABC 001'')]" sample_env]
      update_missing_input [of "[(''emailContent'', JStr ''On hold for now''),
              (''jobNumber'', JStr [])]" sample_env] a b
    by simp
qed

section \<open>Unknown job\<close>

text \<open>
  Claim C6. For every valid request whose job number has no matching record (the
  store answers with an empty \<^verbatim>\<open>records\<close> list or none), or whose lookup fails (the
  request raises, or the API key is not set), the response is a 404 whose body
  carries the job number of the request. No PATCH request is sent.
\<close>

theorem update_job_not_found:
  assumes "job_number = dict_get_default data ''jobNumber'' (JStr [])"
      and "truthy (dict_get_default data ''emailContent'' (JStr []))"
      and "truthy job_number"
      and "\<not> api_key_set e \<or> airtable_get e job_number = None
           \<or> (\<exists>body. airtable_get e job_number = Some (JObj body)
                 \<and> dict_get_default body ''records'' (JArr []) = JArr [])"
  shows "update e (Inr (JObj data))
           = ((404, JObj [(''error'', JStr ''Job not found''), (''jobNumber'', job_number)]), [])"
  using assms(1-3) lookup_fails [OF assms(4)]
  by (simp add: update_def Let_def)

theorem update_job_not_found_witness:
  "update sample_env (Inr (JObj [(''emailContent'', JStr ''On hold for now''),
                                  (''jobNumber'', JStr ''ABC 002'')]))
     = ((404, JObj [(''error'', JStr ''Job not found''), (''jobNumber'', JStr ''ABC 002'')]), [])
   \<and> airtable_get sample_env (JStr ''ABC 002'') = Some (JObj [(''records'', JArr [])])
   \<and> update sample_env (Inr (JObj [(''emailContent'', JStr ''On hold for now''),
                                  (''jobNumber'', JStr ''ABC 500'')]))
     = ((404, JObj [(''error'', JStr ''Job not found''), (''jobNumber'', JStr ''ABC 500'')]), [])
   \<and> airtable_get sample_env (JStr ''ABC 500'') = None"
proof -
  have g: "airtable_get sample_env (JStr ''ABC 002'') = Some (JObj [(''records'', JArr [])])"
    "airtable_get sample_env (JStr ''ABC 500'') = None"
    by (simp_all add: sample_env_def)
  have r: "dict_get_default [(''records'', JArr [])] ''records'' (JArr []) = JArr []"
    by (simp add: dict_get_default_def)
  have d: "dict_get_default [(''emailContent'', JStr ''On hold for now''),
              (''jobNumber'', JStr ''ABC 002'')] ''jobNumber'' (JStr []) = JStr ''ABC 002''"
    "dict_get_default [(''emailContent'', JStr ''On hold for now''),
              (''jobNumber'', JStr ''ABC 500'')] ''jobNumber'' (JStr []) = JStr ''ABC 500''"
    "truthy (dict_get_default [(''emailContent'', JStr ''On hold for now''),
              (''jobNumber'', JStr ''ABC 002'')] ''emailContent'' (JStr []))"
    "truthy (dict_get_default [(''emailContent'', JStr ''On hold for now''),
              (''jobNumber'', JStr ''ABC 500'')] ''emailContent'' (JStr []))"
    by (simp_all add: dict_get_default_def)
  show ?thesis
    using update_job_not_found [of "JStr ''ABC 002''" "[(''emailContent'', JStr ''On hold for now''),
              (''jobNumber'', JStr ''ABC 002'')]" sample_env]
      update_job_not_found [of "JStr ''ABC 500''" "[(''emailContent'', JStr ''On hold for now''),
              (''jobNumber'', JStr ''ABC 500'')]" sample_env]
      g r d
    by simp
qed

section \<open>A reply that is not JSON\<close>

text \<open>
  Claim C7. For every valid request with a record found, whose model reply is, after
  fence stripping, refused by \<^verbatim>\<open>json.loads\<close>, the response is a 500 whose body holds
  the parser's message and, as \<^verbatim>\<open>raw_response\<close>, the fence-stripped text. No PATCH
  request is sent.
\<close>

theorem update_invalid_json:
  assumes "email_content = dict_get_default data ''emailContent'' (JStr [])"
      and "truthy email_content"
      and "job_number = dict_get_default data ''jobNumber'' (JStr [])"
      and "truthy job_number"
      and "get_project_by_job_number e job_number = (project_record_id, JObj current_data)"
      and "truthy project_record_id"
      and "messages_create e job_number current_data email_content = Inr text"
      and "json_loads e (strip_markdown_json text) = Inl msg"
  shows "update e (Inr (JObj data))
           = ((500, JObj [(''error'', JStr ''Claude returned invalid JSON''),
                          (''details'', JStr msg),
                          (''raw_response'', JStr (strip_markdown_json text))]), [])"
  unfolding update_reaches_invoke_model [OF assms(1-6)]
  using assms(7,8) by (simp add: invoke_model_def Let_def)

theorem update_invalid_json_witness:
  "update sample_env (Inr (JObj [(''emailContent'', JStr ''garbled''),
                                  (''jobNumber'', JStr ''ABC 001'')]))
     = ((500, JObj [(''error'', JStr ''Claude returned invalid JSON''),
                    (''details'', JStr ''Expecting value: line 1 column 1 (char 0)''),
                    (''raw_response'', JStr ''Sorry, no update found.'')]), [])"
proof -
  let ?data = "[(''emailContent'', JStr ''garbled''), (''jobNumber'', JStr ''ABC 001'')]"
  let ?cur = "[(''Project Name'', JStr ''Website''), (''Stage'', JStr ''Craft'')]"
  have d: "JStr ''garbled'' = dict_get_default ?data ''emailContent'' (JStr [])"
    "JStr ''ABC 001'' = dict_get_default ?data ''jobNumber'' (JStr [])"
    by (simp_all add: dict_get_default_def)
  have t: "truthy (JStr ''garbled'')" "truthy (JStr ''ABC 001'')" "truthy (JStr ''rec1'')"
    by simp_all
  have m: "messages_create sample_env (JStr ''ABC 001'') ?cur (JStr ''garbled'')
             = Inr ''```\<newline>Sorry, no update found.\<newline>```''"
    by (simp add: sample_env_def)
  have s: "strip_markdown_json ''```\<newline>Sorry, no update found.\<newline>```''
             = ''Sorry, no update found.''"
    by (simp add: strip_markdown_json_def strip_def isspace_def startswith_def endswith_def
          fence_def after_first_newline_def rsplit1_head_def Let_def)
  have j: "json_loads sample_env (strip_markdown_json ''```\<newline>Sorry, no update found.\<newline>```'')
             = Inl ''Expecting value: line 1 column 1 (char 0)''"
    unfolding s by (simp add: sample_env_def)
  show ?thesis
    using update_invalid_json [OF d(1) t(1) d(2) t(2) sample_lookup t(3) m j]
    unfolding s .
qed

section \<open>Nothing extracted, nothing patched\<close>

text \<open>
  Claim C8. For every extraction result in which \<^verbatim>\<open>stage\<close>, \<^verbatim>\<open>status\<close> and
  \<^verbatim>\<open>updateSummary\<close> are absent or empty and \<^verbatim>\<open>withClient\<close> is absent or null, the
  handler sends no PATCH request. When the result supplies an \<^verbatim>\<open>updateDue\<close> or the
  current date is at most 9999-12-26 (the ordinal 3652054), its response, a 200,
  reports \<^verbatim>\<open>airtableUpdated\<close> as false and \<^verbatim>\<open>fieldsUpdated\<close> as the empty list. When
  the result supplies no \<^verbatim>\<open>updateDue\<close> and the current date is later, the due date
  cannot be computed and the response is the generic 500.
\<close>

theorem no_patch_when_nothing_extracted:
  assumes "\<not> truthy (dict_get analysis ''stage'')"
      and "\<not> truthy (dict_get analysis ''status'')"
      and "dict_get analysis ''withClient'' = JNull"
      and "\<not> truthy (dict_get analysis ''updateSummary'')"
  shows "snd (apply_analysis e job_number project_record_id current_data (JObj analysis)) = []
       \<and> (truthy (dict_get analysis ''updateDue'') \<or> today e \<le> 3652054 \<longrightarrow>
            (\<exists>body. apply_analysis e job_number project_record_id current_data (JObj analysis)
                      = ((200, JObj body), [])
                  \<and> map_of body ''airtableUpdated'' = Some (JBool False)
                  \<and> map_of body ''fieldsUpdated'' = Some (JArr [])))
       \<and> (\<not> truthy (dict_get analysis ''updateDue'') \<and> 3652054 < today e \<longrightarrow>
            apply_analysis e job_number project_record_id current_data (JObj analysis)
              = (internal_error ''date value out of range'', []))"
proof -
  have good: "\<exists>body. apply_analysis e job_number project_record_id current_data (JObj analysis)
                      = ((200, JObj body), [])
                  \<and> map_of body ''airtableUpdated'' = Some (JBool False)
                  \<and> map_of body ''fieldsUpdated'' = Some (JArr [])"
    if "truthy (dict_get analysis ''updateDue'') \<or> today e \<le> 3652054"
  proof -
    from update_due_for_returns [OF that] obtain update_due
      where due: "update_due_for e analysis = Inr update_due" ..
    from due airtable_updates_empty [OF assms] show ?thesis
      by (rule apply_analysis_empty)
  qed
  have bad: "apply_analysis e job_number project_record_id current_data (JObj analysis)
              = (internal_error ''date value out of range'', [])"
    if "\<not> truthy (dict_get analysis ''updateDue'') \<and> 3652054 < today e"
    using that by (simp add: apply_analysis_overflow)
  have "snd (apply_analysis e job_number project_record_id current_data (JObj analysis)) = []"
  proof (cases "truthy (dict_get analysis ''updateDue'') \<or> today e \<le> 3652054")
    case True
    from good [OF True] show ?thesis by auto
  next
    case False
    then have "\<not> truthy (dict_get analysis ''updateDue'') \<and> 3652054 < today e" by simp
    from bad [OF this] show ?thesis by simp
  qed
  with good bad show ?thesis by blast
qed

text \<open>
  On the sample environment an extraction result that holds a confidence and an
  empty stage is answered with the 200 and no PATCH; on 9999-12-28 it is answered
  with the 500 and no PATCH.
\<close>

theorem no_patch_when_nothing_extracted_witness:
  "dict_get [(''confidence'', JStr ''LOW''), (''stage'', JStr [])] ''stage'' = JStr []
   \<and> dict_get [(''confidence'', JStr ''LOW''), (''stage'', JStr [])] ''withClient'' = JNull
   \<and> today sample_env \<le> 3652054
   \<and> (\<exists>body. apply_analysis sample_env (JStr ''ABC 001'') (JStr ''rec1'') []
               (JObj [(''confidence'', JStr ''LOW''), (''stage'', JStr [])])
             = ((200, JObj body), [])
         \<and> map_of body ''airtableUpdated'' = Some (JBool False)
         \<and> map_of body ''fieldsUpdated'' = Some (JArr []))
   \<and> 3652054 < today (sample_env\<lparr>today := 3652056\<rparr>)
   \<and> apply_analysis (sample_env\<lparr>today := 3652056\<rparr>) (JStr ''ABC 001'') (JStr ''rec1'') []
         (JObj [(''confidence'', JStr ''LOW''), (''stage'', JStr [])])
       = (internal_error ''date value out of range'', [])"
proof -
  have a: "\<not> truthy (dict_get [(''confidence'', JStr ''LOW''), (''stage'', JStr [])] ''stage'')"
    "\<not> truthy (dict_get [(''confidence'', JStr ''LOW''), (''stage'', JStr [])] ''status'')"
    "dict_get [(''confidence'', JStr ''LOW''), (''stage'', JStr [])] ''withClient'' = JNull"
    "\<not> truthy (dict_get [(''confidence'', JStr ''LOW''), (''stage'', JStr [])] ''updateSummary'')"
    "dict_get [(''confidence'', JStr ''LOW''), (''stage'', JStr [])] ''stage'' = JStr []"
    "\<not> truthy (dict_get [(''confidence'', JStr ''LOW''), (''stage'', JStr [])] ''updateDue'')"
    by (simp_all add: dict_get_def dict_get_default_def)
  have early: "today sample_env \<le> 3652054" by (simp add: sample_env_def)
  have late: "3652054 < today (sample_env\<lparr>today := 3652056\<rparr>)" by simp
  from no_patch_when_nothing_extracted
        [OF a(1-4), of sample_env "JStr ''ABC 001''" "JStr ''rec1''" "[]"] early
  have first: "\<exists>body. apply_analysis sample_env (JStr ''ABC 001'') (JStr ''rec1'') []
               (JObj [(''confidence'', JStr ''LOW''), (''stage'', JStr [])])
             = ((200, JObj body), [])
         \<and> map_of body ''airtableUpdated'' = Some (JBool False)
         \<and> map_of body ''fieldsUpdated'' = Some (JArr [])"
    by blast
  from no_patch_when_nothing_extracted
        [OF a(1-4), of "sample_env\<lparr>today := 3652056\<rparr>" "JStr ''ABC 001''" "JStr ''rec1''" "[]"]
       a(6) late
  have second: "apply_analysis (sample_env\<lparr>today := 3652056\<rparr>) (JStr ''ABC 001'') (JStr ''rec1'') []
         (JObj [(''confidence'', JStr ''LOW''), (''stage'', JStr [])])
       = (internal_error ''date value out of range'', [])"
    by blast
  from a(3,5) early first late second show ?thesis by blast
qed

text \<open>
  The claim for every current date fails on 9999-12-27: an extraction result with
  no field at all is answered with the generic 500, whose body has neither
  \<^verbatim>\<open>airtableUpdated\<close> nor \<^verbatim>\<open>fieldsUpdated\<close>.
\<close>

theorem no_patch_when_nothing_extracted_counterexample:
  "apply_analysis (sample_env\<lparr>today := 3652055\<rparr>) (JStr ''ABC 001'') (JStr ''rec1'') [] (JObj [])
     = ((500, JObj [(''error'', JStr ''Internal server error''),
                    (''details'', JStr ''date value out of range'')]), [])
   \<and> map_of [(''error'', JStr ''Internal server error''),
              (''details'', JStr ''date value out of range'')] ''airtableUpdated'' = None
   \<and> map_of [(''error'', JStr ''Internal server error''),
              (''details'', JStr ''date value out of range'')] ''fieldsUpdated'' = None"
  by (simp add: apply_analysis_def update_due_for_def get_working_days_from_today_def
        dict_get_def dict_get_default_def late_loop internal_error_def)

section \<open>The due date in the response\<close>

text \<open>
  Claim C9. For every extraction result from which the payload is built (a
  dictionary whose \<^verbatim>\<open>stage\<close> and \<^verbatim>\<open>status\<close>, when non-empty, are strings) and that
  supplies a non-empty \<^verbatim>\<open>updateDue\<close> or is handled on a current date of at most
  9999-12-26 (the ordinal 3652054), the response is a 200 whose \<^verbatim>\<open>updateDue\<close> is a
  non-empty value: the \<^verbatim>\<open>updateDue\<close> of the extraction result when that is present
  and non-empty, the computed five-working-day date otherwise. This holds also when
  \<^verbatim>\<open>updateSummary\<close> is absent or empty, in which case the payload has no
  \<^verbatim>\<open>Update due\<close> field.
\<close>

theorem response_update_due_always_set:
  assumes "\<not> truthy (dict_get analysis ''stage'') \<or> (\<exists>t. dict_get analysis ''stage'' = JStr t)"
      and "\<not> truthy (dict_get analysis ''status'') \<or> (\<exists>t. dict_get analysis ''status'' = JStr t)"
      and "truthy (dict_get analysis ''updateDue'') \<or> today e \<le> 3652054"
  shows "\<exists>update_due updates body calls.
           update_due_for e analysis = Inr update_due
         \<and> airtable_updates e analysis update_due = Inr updates
         \<and> apply_analysis e job_number project_record_id current_data (JObj analysis)
             = ((200, JObj body), calls)
         \<and> map_of body ''updateDue'' = Some update_due
         \<and> truthy update_due
         \<and> (truthy (dict_get analysis ''updateDue'') \<longrightarrow>
               update_due = dict_get analysis ''updateDue'')
         \<and> (\<not> truthy (dict_get analysis ''updateDue'') \<longrightarrow>
               (\<exists>due. working_days_loop 5 (today e) 0 = Inr due
                  \<and> get_working_days_from_today e 5 = Inr (isoformat due)
                  \<and> update_due = JStr (isoformat due)))
         \<and> (\<not> truthy (dict_get analysis ''updateSummary'') \<longrightarrow>
               ''Update due'' \<notin> set (dict_keys updates))"
proof -
  from update_due_for_returns [OF assms(3)] obtain update_due
    where due: "update_due_for e analysis = Inr update_due" ..
  from airtable_updates_ok [OF assms(1,2)] obtain updates
    where upd: "airtable_updates e analysis update_due = Inr updates" ..
  from apply_analysis_responds [OF due upd] obtain body calls
    where resp: "apply_analysis e job_number project_record_id current_data (JObj analysis)
             = ((200, JObj body), calls)"
      and field: "map_of body ''updateDue'' = Some update_due"
    by blast
  have nonempty: "truthy update_due"
    using due by (rule update_due_for_truthy)
  have supplied: "truthy (dict_get analysis ''updateDue'') \<longrightarrow>
               update_due = dict_get analysis ''updateDue''"
    using due by (auto simp: update_due_for_def split: if_splits)
  have computed: "\<not> truthy (dict_get analysis ''updateDue'') \<longrightarrow>
               (\<exists>due. working_days_loop 5 (today e) 0 = Inr due
                  \<and> get_working_days_from_today e 5 = Inr (isoformat due)
                  \<and> update_due = JStr (isoformat due))"
    using due
    by (auto simp: update_due_for_def get_working_days_from_today_def
          split: if_splits sum.splits)
  have written: "\<not> truthy (dict_get analysis ''updateSummary'') \<longrightarrow>
               ''Update due'' \<notin> set (dict_keys updates)"
    using airtable_updates_keys [OF upd] by (simp split: if_splits)
  from due upd resp field nonempty supplied computed written show ?thesis by blast
qed

text \<open>
  On the sample environment an extraction result that holds only
  \<^verbatim>\<open>withClient = false\<close> is answered with the computed date, 2026-11-10, and the
  payload has no \<^verbatim>\<open>Update due\<close>; on 9999-12-28 an extraction result that supplies
  its own \<^verbatim>\<open>updateDue\<close> is answered with that value.
\<close>

theorem response_update_due_always_set_witness:
  "today sample_env \<le> 3652054
   \<and> dict_get [(''withClient'', JBool False)] ''stage'' = JNull
   \<and> dict_get [(''withClient'', JBool False)] ''status'' = JNull
   \<and> dict_get [(''withClient'', JBool False)] ''updateDue'' = JNull
   \<and> airtable_updates sample_env [(''withClient'', JBool False)] (JStr ''2026-11-10'')
       = Inr [(''With Client?'', JBool False)]
   \<and> ''Update due'' \<notin> set (dict_keys [(''With Client?'', JBool False)])
   \<and> (\<exists>body calls.
         apply_analysis sample_env (JStr ''ABC 001'') (JStr ''rec1'') []
             (JObj [(''withClient'', JBool False)])
           = ((200, JObj body), calls)
       \<and> map_of body ''updateDue'' = Some (JStr ''2026-11-10''))
   \<and> dict_get [(''updateDue'', JStr ''9999-12-31'')] ''updateDue'' = JStr ''9999-12-31''
   \<and> (\<exists>body calls.
         apply_analysis (sample_env\<lparr>today := 3652056\<rparr>) (JStr ''ABC 001'') (JStr ''rec1'') []
             (JObj [(''updateDue'', JStr ''9999-12-31'')])
           = ((200, JObj body), calls)
       \<and> map_of body ''updateDue'' = Some (JStr ''9999-12-31''))"
proof -
  have early: "today sample_env \<le> 3652054" by (simp add: sample_env_def)
  have a: "dict_get [(''withClient'', JBool False)] ''stage'' = JNull"
    "dict_get [(''withClient'', JBool False)] ''status'' = JNull"
    "dict_get [(''withClient'', JBool False)] ''updateDue'' = JNull"
    by (simp_all add: dict_get_def dict_get_default_def)
  have b: "dict_get [(''updateDue'', JStr ''9999-12-31'')] ''stage'' = JNull"
    "dict_get [(''updateDue'', JStr ''9999-12-31'')] ''status'' = JNull"
    "dict_get [(''updateDue'', JStr ''9999-12-31'')] ''updateDue'' = JStr ''9999-12-31''"
    by (simp_all add: dict_get_def dict_get_default_def)
  have d: "update_due_for sample_env [(''withClient'', JBool False)] = Inr (JStr ''2026-11-10'')"
    by (simp add: update_due_for_def a sample_due)
  have c: "airtable_updates sample_env [(''withClient'', JBool False)] (JStr ''2026-11-10'')
     = Inr [(''With Client?'', JBool False)]"
    by (simp add: airtable_updates_def set_stage_def set_status_def set_with_client_def
        set_update_def dict_get_def dict_get_default_def)
  have k: "''Update due'' \<notin> set (dict_keys [(''With Client?'', JBool False)])"
    by (simp add: dict_keys_def)
  from response_update_due_always_set
         [of "[(''withClient'', JBool False)]" sample_env "JStr ''ABC 001''" "JStr ''rec1''" "[]"]
       a early
  obtain update_due body calls where
    "update_due_for sample_env [(''withClient'', JBool False)] = Inr update_due"
    "apply_analysis sample_env (JStr ''ABC 001'') (JStr ''rec1'') []
         (JObj [(''withClient'', JBool False)]) = ((200, JObj body), calls)"
    "map_of body ''updateDue'' = Some update_due"
    by auto
  then have first: "\<exists>body calls.
         apply_analysis sample_env (JStr ''ABC 001'') (JStr ''rec1'') []
             (JObj [(''withClient'', JBool False)])
           = ((200, JObj body), calls)
       \<and> map_of body ''updateDue'' = Some (JStr ''2026-11-10'')"
    unfolding d by auto
  from response_update_due_always_set
         [of "[(''updateDue'', JStr ''9999-12-31'')]" "sample_env\<lparr>today := 3652056\<rparr>"
             "JStr ''ABC 001''" "JStr ''rec1''" "[]"]
       b
  obtain update_due' body' calls' where
    "truthy (dict_get [(''updateDue'', JStr ''9999-12-31'')] ''updateDue'') \<longrightarrow>
       update_due' = dict_get [(''updateDue'', JStr ''9999-12-31'')] ''updateDue''"
    "apply_analysis (sample_env\<lparr>today := 3652056\<rparr>) (JStr ''ABC 001'') (JStr ''rec1'') []
         (JObj [(''updateDue'', JStr ''9999-12-31'')]) = ((200, JObj body'), calls')"
    "map_of body' ''updateDue'' = Some update_due'"
    by auto
  then have second: "\<exists>body calls.
         apply_analysis (sample_env\<lparr>today := 3652056\<rparr>) (JStr ''ABC 001'') (JStr ''rec1'') []
             (JObj [(''updateDue'', JStr ''9999-12-31'')])
           = ((200, JObj body), calls)
       \<and> map_of body ''updateDue'' = Some (JStr ''9999-12-31'')"
    by (auto simp: b)
  from early a c k first b(3) second show ?thesis by blast
qed

text \<open>
  The claim for every current date fails on 9999-12-27: an extraction result that
  holds only \<^verbatim>\<open>withClient = false\<close> parses, supplies no \<^verbatim>\<open>updateDue\<close>, and is
  answered with the generic 500, whose body has no \<^verbatim>\<open>updateDue\<close>; no PATCH is sent.
\<close>

theorem response_update_due_always_set_counterexample:
  "apply_analysis (sample_env\<lparr>today := 3652055\<rparr>) (JStr ''ABC 001'') (JStr ''rec1'') []
       (JObj [(''withClient'', JBool False)])
     = ((500, JObj [(''error'', JStr ''Internal server error''),
                    (''details'', JStr ''date value out of range'')]), [])
   \<and> map_of [(''error'', JStr ''Internal server error''),
              (''details'', JStr ''date value out of range'')] ''updateDue'' = None"
  by (simp add: apply_analysis_def update_due_for_def get_working_days_from_today_def
        dict_get_def dict_get_default_def late_loop internal_error_def)

section \<open>An unreadable request body\<close>

text \<open>
  Claim C10. For every request whose body is absent or cannot be parsed as JSON, so
  that \<^verbatim>\<open>request.get_json()\<close> raises or returns \<^verbatim>\<open>None\<close>, the handler answers with the
  generic 500 (\<^verbatim>\<open>Internal server error\<close>) and not with a 400.
\<close>

theorem update_unreadable_body:
  "update e (Inl msg)
     = ((500, JObj [(''error'', JStr ''Internal server error''), (''details'', JStr msg)]), [])
   \<and> update e (Inr JNull)
     = ((500, JObj [(''error'', JStr ''Internal server error''),
                    (''details'', JStr (no_attribute JNull ''get''))]), [])"
  by (simp add: update_def internal_error_def)

theorem update_unreadable_body_witness:
  "update sample_env (Inl ''400 Bad Request: Failed to decode JSON object'')
     = ((500, JObj [(''error'', JStr ''Internal server error''),
                    (''details'', JStr ''400 Bad Request: Failed to decode JSON object'')]), [])
   \<and> update sample_env (Inr JNull)
     = ((500, JObj [(''error'', JStr ''Internal server error''),
                    (''details'', JStr (CHR 0x27 # ''NoneType'' @ CHR 0x27 #
                        '' object has no attribute '' @ CHR 0x27 # ''get'' @ [CHR 0x27]))]), [])"
  using update_unreadable_body [of sample_env "''400 Bad Request: Failed to decode JSON object''"]
  by (simp add: no_attribute_def)

end
